theory Spec2Isabelle
  imports Complex_Main "HOL-Library.Word" "HOL-Library.Sublist"
begin

section \<open>JavaScript strings of the receipt printer\<close>

text \<open>
  The printer service works on JavaScript strings that mix ASCII and CJK text.  A
  JavaScript string is a sequence of UTF-16 code units; \<open>text.length\<close>,
  \<open>text[i]\<close> and \<open>substring\<close> all count code units.  The model is a list of
  16-bit words.
\<close>

type_synonym jschar = "16 word"
type_synonym jsstring = "jschar list"

text \<open>An ASCII literal of the source, as code units.\<close>

definition js :: "string \<Rightarrow> jsstring" where
  "js s = map of_char s"

text \<open>\<open>' '.repeat(n)\<close>.\<close>

definition spaces :: "nat \<Rightarrow> jsstring" where
  "spaces n = replicate n 0x20"

text \<open>The ellipsis character U+2026 appended by \<open>truncateText\<close>.\<close>

definition ellipsis :: jschar where
  "ellipsis = 0x2026"

subsection \<open>truncateText (printerService, lines 563-571)\<close>

text \<open>
  \<open>if (!text) return ''\<close>: the empty string is falsy.  Otherwise the text is cut
  when \<open>str.length > maxWidth\<close> to \<open>str.substring(0, maxWidth - 1) + '...'\<close>
  (one ellipsis character).  \<open>substring\<close> clamps a negative end to 0, which is
  what the subtraction on \<open>nat\<close> does.
\<close>

definition truncateText :: "jsstring \<Rightarrow> nat \<Rightarrow> jsstring" where
  "truncateText text maxWidth =
     (if text = [] then []
      else if length text > maxWidth then take (maxWidth - 1) text @ [ellipsis]
      else text)"

subsection \<open>getDisplayWidth and the alignment helpers (lines 659-694)\<close>

text \<open>
  The regular expression of the source, the three ranges U+4E00..U+9FFF,
  U+3400..U+4DBF and U+F900..U+FAFF, tested on one code unit.
\<close>

definition is_cjk :: "jschar \<Rightarrow> bool" where
  "is_cjk c \<longleftrightarrow>
     (0x4e00 \<le> c \<and> c \<le> 0x9fff) \<or> (0x3400 \<le> c \<and> c \<le> 0x4dbf) \<or> (0xf900 \<le> c \<and> c \<le> 0xfaff)"

text \<open>The body of the \<open>for\<close> loop: \<open>width += 2\<close> or \<open>width += 1\<close>.\<close>

definition width_step :: "jschar \<Rightarrow> nat \<Rightarrow> nat" where
  "width_step c width = (if is_cjk c then width + 2 else width + 1)"

definition getDisplayWidth :: "jsstring \<Rightarrow> nat" where
  "getDisplayWidth text = fold width_step text 0"

text \<open>\<open>Math.max(0, targetWidth - displayWidth)\<close>, computed on integers as the source does.\<close>

definition pad_amount :: "nat \<Rightarrow> nat \<Rightarrow> nat" where
  "pad_amount targetWidth displayWidth = nat (max 0 (int targetWidth - int displayWidth))"

definition leftAlign :: "jsstring \<Rightarrow> nat \<Rightarrow> jsstring" where
  "leftAlign text targetWidth =
     (let displayWidth = getDisplayWidth text;
          padding = pad_amount targetWidth displayWidth
      in text @ spaces padding)"

definition centerAlign :: "jsstring \<Rightarrow> nat \<Rightarrow> jsstring" where
  "centerAlign text targetWidth =
     (let displayWidth = getDisplayWidth text;
          totalPadding = pad_amount targetWidth displayWidth;
          leftPadding = totalPadding div 2;
          rightPadding = totalPadding - leftPadding
      in spaces leftPadding @ text @ spaces rightPadding)"

definition rightAlign :: "jsstring \<Rightarrow> nat \<Rightarrow> jsstring" where
  "rightAlign text targetWidth =
     (let displayWidth = getDisplayWidth text;
          padding = pad_amount targetWidth displayWidth
      in spaces padding @ text)"

section \<open>The order service: values, clock and tables\<close>

subsection \<open>Strings and numbers of the order number\<close>

text \<open>
  The order number is ASCII, so the order service is modelled on \<open>string\<close>.
  \<open>String(n)\<close> of an integer is its decimal form; \<open>NaN\<close> is \<open>None\<close>.
  Integers are unbounded here: the model covers counters below \<open>2^53\<close>, where
  JavaScript numbers are exact.
\<close>

definition digit_char :: "nat \<Rightarrow> char" where
  "digit_char d = ''0123456789'' ! d"

function digits_of :: "nat \<Rightarrow> string" where
  "digits_of n = (if n < 10 then [digit_char n] else digits_of (n div 10) @ [digit_char (n mod 10)])"
  by pat_completeness auto
termination
  by (relation "measure (\<lambda>n. n)") auto

declare digits_of.simps [simp del]

definition String_int :: "int \<Rightarrow> string" where
  "String_int i = (if i < 0 then CHR ''-'' # digits_of (nat (- i)) else digits_of (nat i))"

definition String_num :: "int option \<Rightarrow> string" where
  "String_num v = (case v of None \<Rightarrow> ''NaN'' | Some i \<Rightarrow> String_int i)"

text \<open>\<open>s.padStart(n, '0')\<close>, \<open>s.slice(0, 3)\<close> is \<open>take 3\<close>, \<open>s.slice(-8)\<close>.\<close>

definition padStart :: "nat \<Rightarrow> string \<Rightarrow> string" where
  "padStart n s = replicate (n - length s) CHR ''0'' @ s"

definition slice_last :: "nat \<Rightarrow> string \<Rightarrow> string" where
  "slice_last n s = drop (length s - n) s"

subsection \<open>parseInt\<close>

text \<open>
  \<open>parseInt\<close> of a string skips leading white space, reads an optional sign, an
  optional \<open>0x\<close> prefix, and the longest run of digits; with no digit it is
  \<open>NaN\<close>.  The white space is that of JavaScript among the 8-bit characters:
  space, tab, line feed, vertical tab, form feed, carriage return and no-break space.
\<close>

definition is_ws :: "char \<Rightarrow> bool" where
  "is_ws c \<longleftrightarrow> c \<in> set [CHR '' '', CHR 0x09, CHR 0x0A, CHR 0x0B, CHR 0x0C, CHR 0x0D, CHR 0xA0]"

definition dec_digit :: "char \<Rightarrow> nat option" where
  "dec_digit = map_of [(CHR ''0'', 0), (CHR ''1'', 1), (CHR ''2'', 2), (CHR ''3'', 3),
     (CHR ''4'', 4), (CHR ''5'', 5), (CHR ''6'', 6), (CHR ''7'', 7), (CHR ''8'', 8), (CHR ''9'', 9)]"

definition hex_digit :: "char \<Rightarrow> nat option" where
  "hex_digit c = (case dec_digit c of Some d \<Rightarrow> Some d
     | None \<Rightarrow> map_of [(CHR ''a'', 10), (CHR ''b'', 11), (CHR ''c'', 12), (CHR ''d'', 13),
         (CHR ''e'', 14), (CHR ''f'', 15), (CHR ''A'', 10), (CHR ''B'', 11), (CHR ''C'', 12),
         (CHR ''D'', 13), (CHR ''E'', 14), (CHR ''F'', 15)] c)"

fun strip_sign :: "string \<Rightarrow> bool \<times> string" where
  "strip_sign [] = (False, [])"
| "strip_sign (c # cs) =
     (if c = CHR ''-'' then (True, cs) else if c = CHR ''+'' then (False, cs) else (False, c # cs))"

fun leading_digits :: "(char \<Rightarrow> nat option) \<Rightarrow> string \<Rightarrow> nat list" where
  "leading_digits tbl [] = []"
| "leading_digits tbl (c # cs) = (case tbl c of None \<Rightarrow> [] | Some d \<Rightarrow> d # leading_digits tbl cs)"

definition digits_value :: "nat \<Rightarrow> nat list \<Rightarrow> nat" where
  "digits_value radix ds = foldl (\<lambda>acc d. acc * radix + d) 0 ds"

definition parseInt :: "string \<Rightarrow> int option" where
  "parseInt s =
     (let (neg, t) = strip_sign (dropWhile is_ws s);
          hex = (take 2 t = ''0x'' \<or> take 2 t = ''0X'');
          ds = (if hex then leading_digits hex_digit (drop 2 t) else leading_digits dec_digit t);
          v = int (digits_value (if hex then 16 else 10) ds)
      in if ds = [] then None else Some (if neg then - v else v))"

subsection \<open>Setting values\<close>

text \<open>
  A row of the \<open>settings\<close> table holds a text that is meant to be JSON.  The model
  keeps what \<open>JSON.parse\<close> makes of the text: an integer, a string, one of
  \<open>null\<close>, \<open>true\<close>, \<open>false\<close> (\<open>JOther\<close>), or a syntax error
  (\<open>NotJson\<close>).  Fractions, arrays and objects are outside the model.
\<close>

datatype jsval = JNum int | JStr string | JOther

datatype setting_text = Json jsval | NotJson

datatype error =
    DbError nat          \<comment> \<open>the store operation with this number failed\<close>
  | SyntaxError          \<comment> \<open>thrown by \<open>JSON.parse\<close>\<close>
  | EmptyItems           \<comment> \<open>the order has no lines\<close>
  | PartialItems         \<comment> \<open>some meals do not exist or are inactive\<close>
  | BadPaymentMethod     \<comment> \<open>the payment method does not exist or is disabled\<close>

definition JSON_parse :: "setting_text \<Rightarrow> error + jsval" where
  "JSON_parse t = (case t of Json v \<Rightarrow> Inr v | NotJson \<Rightarrow> Inl SyntaxError)"

definition JSON_stringify :: "jsval \<Rightarrow> setting_text" where
  "JSON_stringify v = Json v"

text \<open>\<open>parseInt(v)\<close> of a parsed value: a number is itself, a string is parsed.\<close>

definition parseInt_val :: "jsval \<Rightarrow> int option" where
  "parseInt_val v = (case v of JNum n \<Rightarrow> Some n | JStr s \<Rightarrow> parseInt s | JOther \<Rightarrow> None)"

text \<open>\<open>x || 0\<close>: \<open>NaN\<close> and \<open>0\<close> are falsy.\<close>

definition or_zero :: "int option \<Rightarrow> int" where
  "or_zero v = (case v of None \<Rightarrow> 0 | Some i \<Rightarrow> i)"

subsection \<open>Clock and random source\<close>

text \<open>
  What one call of \<open>generateOrderNumber\<close> reads from outside the store: the
  fields of \<open>new Date()\<close>, \<open>Math.floor(Math.random() * 100)\<close>, and
  \<open>Date.now()\<close> of the fallback.
\<close>

record env =
  fullYear :: nat
  month0 :: nat          \<comment> \<open>\<open>getMonth()\<close>, 0 for January\<close>
  dayOfMonth :: nat
  hours :: nat
  minutes :: nat
  seconds :: nat
  random100 :: nat
  epoch_ms :: nat

definition dateStr :: "env \<Rightarrow> string" where
  "dateStr e = String_int (int (fullYear e)) @ padStart 2 (String_int (int (month0 e + 1)))
                 @ padStart 2 (String_int (int (dayOfMonth e)))"

definition timeStr :: "env \<Rightarrow> string" where
  "timeStr e = padStart 2 (String_int (int (hours e))) @ padStart 2 (String_int (int (minutes e)))
                 @ padStart 2 (String_int (int (seconds e)))"

definition nodeNumber :: "env \<Rightarrow> string" where
  "nodeNumber e = padStart 2 (String_int (int (random100 e)))"

subsection \<open>Tables and the session with the store\<close>

record meal =
  meal_id :: nat
  meal_active :: bool

record payment_method =
  pm_id :: nat
  pm_active :: bool

record order_row =
  o_id :: nat
  o_order_number :: string
  o_store_id :: int
  o_total_amount :: rat
  o_order_type :: int
  o_payment_method_id :: "nat option"
  o_status :: string
  o_print_status :: "string option"
  o_print_message :: "string option"
  o_daily_sequence :: int

record order_item_row =
  oi_order_id :: nat
  oi_meal_id :: nat
  oi_quantity :: int
  oi_price :: rat
  oi_subtotal :: rat

record tables =
  settings :: "string \<rightharpoonup> setting_text"
  meals :: "meal list"
  payment_methods :: "payment_method list"
  orders :: "order_row list"
  order_items :: "order_item_row list"

text \<open>
  The store as the service sees it: the committed tables, the working copy of the open
  transaction if there is one, and the number of operations issued so far.  Any
  operation may fail; which ones do is given by an oracle \<open>fails\<close> on the
  operation number.
\<close>

record session =
  committed :: tables
  pending :: "tables option"
  opcount :: nat

type_synonym 'a io = "session \<Rightarrow> (error + 'a) \<times> session"

definition ret :: "'a \<Rightarrow> 'a io" where
  "ret x s = (Inr x, s)"

definition throw :: "error \<Rightarrow> 'a io" where
  "throw e s = (Inl e, s)"

definition bnd :: "'a io \<Rightarrow> ('a \<Rightarrow> 'b io) \<Rightarrow> 'b io" where
  "bnd m f s = (case m s of (Inl e, s') \<Rightarrow> (Inl e, s') | (Inr x, s') \<Rightarrow> f x s')"

text \<open>\<open>try { m } catch (e) { h e }\<close>.\<close>

definition try_catch :: "'a io \<Rightarrow> (error \<Rightarrow> 'a io) \<Rightarrow> 'a io" where
  "try_catch m h s = (case m s of (Inl e, s') \<Rightarrow> h e s' | (Inr x, s') \<Rightarrow> (Inr x, s'))"

text \<open>One round trip to the store: it is counted, and fails if the oracle says so.\<close>

definition tick :: "(nat \<Rightarrow> bool) \<Rightarrow> unit io" where
  "tick fails s =
     (if fails (opcount s) then (Inl (DbError (opcount s)), s\<lparr>opcount := Suc (opcount s)\<rparr>)
      else (Inr (), s\<lparr>opcount := Suc (opcount s)\<rparr>))"

text \<open>
  An operation that is given the transaction object works on the working copy; one that
  is not works on the committed tables.
\<close>

definition view :: "bool \<Rightarrow> session \<Rightarrow> tables" where
  "view tx s = (case pending s of Some t \<Rightarrow> if tx then t else committed s | None \<Rightarrow> committed s)"

definition modify :: "bool \<Rightarrow> (tables \<Rightarrow> tables) \<Rightarrow> session \<Rightarrow> session" where
  "modify tx f s =
     (case pending s of
        Some t \<Rightarrow> if tx then s\<lparr>pending := Some (f t)\<rparr> else s\<lparr>committed := f (committed s)\<rparr>
      | None \<Rightarrow> s\<lparr>committed := f (committed s)\<rparr>)"

definition Settings_findOne :: "(nat \<Rightarrow> bool) \<Rightarrow> bool \<Rightarrow> string \<Rightarrow> setting_text option io" where
  "Settings_findOne fails tx key =
     bnd (tick fails) (\<lambda>_ s. (Inr (settings (view tx s) key), s))"

text \<open>\<open>setting.update({ value }, { transaction })\<close> on the row found under \<open>key\<close>.\<close>

definition setting_update :: "(nat \<Rightarrow> bool) \<Rightarrow> bool \<Rightarrow> string \<Rightarrow> setting_text \<Rightarrow> unit io" where
  "setting_update fails tx key v =
     bnd (tick fails) (\<lambda>_ s. (Inr (), modify tx (\<lambda>t. t\<lparr>settings := (settings t)(key \<mapsto> v)\<rparr>) s))"

text \<open>\<open>Settings.create({ key, value, ... }, { transaction })\<close>.\<close>

definition Settings_create :: "(nat \<Rightarrow> bool) \<Rightarrow> bool \<Rightarrow> string \<Rightarrow> setting_text \<Rightarrow> unit io" where
  "Settings_create fails tx key v =
     bnd (tick fails) (\<lambda>_ s. (Inr (), modify tx (\<lambda>t. t\<lparr>settings := (settings t)(key \<mapsto> v)\<rparr>) s))"

section \<open>generateOrderNumber (orderFoodService, lines 26-172)\<close>

record alloc =
  orderNumber :: string
  dailySequence :: int

text \<open>\<open>String(storeId || 1).padStart(3, '0').slice(0, 3)\<close>.\<close>

definition store_id_code :: "int \<Rightarrow> string" where
  "store_id_code storeId = take 3 (padStart 3 (String_int (if storeId = 0 then 1 else storeId)))"

text \<open>
  Step 2 of the source: the store number from the setting \<open>store_number\<close>; the
  inner \<open>catch\<close> falls back to the store id when \<open>JSON.parse\<close> throws.
\<close>

definition storeNumber_of :: "setting_text option \<Rightarrow> int \<Rightarrow> string" where
  "storeNumber_of storeNumberSetting storeId =
     (case storeNumberSetting of
        Some v \<Rightarrow>
          (case JSON_parse v of
             Inr j \<Rightarrow> take 3 (padStart 3 (String_num (parseInt_val j)))
           | Inl _ \<Rightarrow> store_id_code storeId)
      | None \<Rightarrow> store_id_code storeId)"

definition sequenceKey :: "int \<Rightarrow> string" where
  "sequenceKey orderType = (if orderType = 1 then ''daily_takeout_sequence'' else ''daily_dine_in_sequence'')"

definition dateKey :: string where
  "dateKey = ''daily_sequence_date''"

text \<open>Lines 84-94: \<open>currentDate\<close> is \<open>null\<close> without a row or when parsing throws.\<close>

definition currentDate_of :: "setting_text option \<Rightarrow> jsval option" where
  "currentDate_of dateSetting =
     (case dateSetting of
        Some v \<Rightarrow> (case JSON_parse v of Inr j \<Rightarrow> Some j | Inl _ \<Rightarrow> None)
      | None \<Rightarrow> None)"

text \<open>
  Lines 96-152, the counter.  On a new day the date row and the counter row of this
  order type are written.  On the same day the counter is read, incremented and
  written inside a \<open>try\<close> whose \<open>catch\<close> writes 1.  The
  increment is the addition of integers; it is the addition of the source for counters
  from \<open>-2^53\<close> up to but not including \<open>2^53\<close>, and statements
  about all counter values carry that range as a hypothesis.
\<close>

definition next_sequence ::
  "(nat \<Rightarrow> bool) \<Rightarrow> bool \<Rightarrow> int \<Rightarrow> string \<Rightarrow> setting_text option \<Rightarrow> setting_text option \<Rightarrow> int io" where
  "next_sequence fails tx orderType todayDateStr sequenceSetting dateSetting =
     (if currentDate_of dateSetting \<noteq> Some (JStr todayDateStr) then
        bnd (case dateSetting of
               Some _ \<Rightarrow> setting_update fails tx dateKey (JSON_stringify (JStr todayDateStr))
             | None \<Rightarrow> Settings_create fails tx dateKey (JSON_stringify (JStr todayDateStr))) (\<lambda>_.
        bnd (case sequenceSetting of
               Some _ \<Rightarrow> setting_update fails tx (sequenceKey orderType) (JSON_stringify (JNum 1))
             | None \<Rightarrow> Settings_create fails tx (sequenceKey orderType) (JSON_stringify (JNum 1))) (\<lambda>_.
        ret 1))
      else
        (case sequenceSetting of
           Some v \<Rightarrow>
             try_catch
               (case JSON_parse v of
                  Inl e \<Rightarrow> throw e
                | Inr j \<Rightarrow>
                    (let dailySequence = or_zero (parseInt_val j) + 1 in
                     bnd (setting_update fails tx (sequenceKey orderType)
                            (JSON_stringify (JNum dailySequence))) (\<lambda>_.
                     ret dailySequence)))
               (\<lambda>e. bnd (setting_update fails tx (sequenceKey orderType) (JSON_stringify (JNum 1))) (\<lambda>_.
                     ret 1))
         | None \<Rightarrow>
             bnd (Settings_create fails tx (sequenceKey orderType) (JSON_stringify (JNum 1))) (\<lambda>_.
             ret 1)))"

text \<open>The body of the outer \<open>try\<close>, lines 27-162.\<close>

definition generateOrderNumber_try ::
  "(nat \<Rightarrow> bool) \<Rightarrow> env \<Rightarrow> int \<Rightarrow> int \<Rightarrow> bool \<Rightarrow> alloc io" where
  "generateOrderNumber_try fails e orderType storeId tx =
     (let businessCode = (if orderType = 1 then ''T'' else ''D'') in
      bnd (Settings_findOne fails tx ''store_number'') (\<lambda>storeNumberSetting.
      let storeNumber = storeNumber_of storeNumberSetting storeId;
          todayDateStr = dateStr e
      in
      bnd (Settings_findOne fails tx (sequenceKey orderType)) (\<lambda>sequenceSetting.
      bnd (Settings_findOne fails tx dateKey) (\<lambda>dateSetting.
      bnd (next_sequence fails tx orderType todayDateStr sequenceSetting dateSetting) (\<lambda>dailySequence.
      let sequenceNumber = padStart 4 (String_int dailySequence) in
      ret \<lparr>orderNumber = businessCode @ storeNumber @ dateStr e @ timeStr e @ nodeNumber e
                            @ sequenceNumber,
           dailySequence = dailySequence\<rparr>)))))"

text \<open>Lines 163-171: the fallback of the outer \<open>catch\<close>.\<close>

definition fallback :: "env \<Rightarrow> alloc" where
  "fallback e = \<lparr>orderNumber = ''OF'' @ slice_last 8 (String_int (int (epoch_ms e))), dailySequence = 0\<rparr>"

definition generateOrderNumber ::
  "(nat \<Rightarrow> bool) \<Rightarrow> env \<Rightarrow> int \<Rightarrow> int \<Rightarrow> bool \<Rightarrow> session \<Rightarrow> alloc \<times> session" where
  "generateOrderNumber fails e orderType storeId tx s =
     (case generateOrderNumber_try fails e orderType storeId tx s of
        (Inr r, s') \<Rightarrow> (r, s')
      | (Inl err, s') \<Rightarrow> (fallback e, s'))"

section \<open>createOrder (orderFoodService, lines 174-374)\<close>

record order_line =
  line_mealId :: nat
  line_quantity :: int
  line_price :: rat

record order_data =
  od_items :: "order_line list"
  od_totalAmount :: rat
  od_storeId :: int
  od_orderType :: int
  od_paymentMethodId :: "nat option"

text \<open>
  The value returned on success; its message is the fixed text that the order was
  created and the receipt is being printed.
\<close>

record response =
  resp_success :: bool
  resp_orderNumber :: string

text \<open>
  \<open>Meal.findAll({ where: { id: { [Op.in]: mealIds }, is_active: true } })\<close>: the
  active rows of the table whose id is among \<open>mealIds\<close>, each row once.  It is
  issued without the transaction.
\<close>

definition Meal_findAll :: "(nat \<Rightarrow> bool) \<Rightarrow> nat list \<Rightarrow> meal list io" where
  "Meal_findAll fails mealIds =
     bnd (tick fails) (\<lambda>_ s.
       (Inr (filter (\<lambda>m. meal_id m \<in> set mealIds \<and> meal_active m) (meals (view False s))), s))"

definition PaymentMethod_findOne :: "(nat \<Rightarrow> bool) \<Rightarrow> nat \<Rightarrow> payment_method option io" where
  "PaymentMethod_findOne fails pid =
     bnd (tick fails) (\<lambda>_ s.
       (Inr (find (\<lambda>p. pm_id p = pid \<and> pm_active p) (payment_methods (view False s))), s))"

text \<open>Lines 195-207; \<open>if (paymentMethodId)\<close> skips \<open>null\<close> and \<open>0\<close>.\<close>

definition validate_payment :: "(nat \<Rightarrow> bool) \<Rightarrow> nat option \<Rightarrow> payment_method option io" where
  "validate_payment fails pmid =
     (case pmid of
        None \<Rightarrow> ret None
      | Some pid \<Rightarrow>
          if pid = 0 then ret None
          else bnd (PaymentMethod_findOne fails pid) (\<lambda>paymentMethod.
               case paymentMethod of
                 None \<Rightarrow> throw BadPaymentMethod
               | Some p \<Rightarrow> ret (Some p)))"

text \<open>
  \<open>Order.sequelize.transaction()\<close>, \<open>transaction.commit()\<close> and
  \<open>transaction.rollback()\<close>.  A commit or rollback that fails leaves the committed
  tables as they were.
\<close>

definition begin_transaction :: "(nat \<Rightarrow> bool) \<Rightarrow> unit io" where
  "begin_transaction fails = bnd (tick fails) (\<lambda>_ s. (Inr (), s\<lparr>pending := Some (committed s)\<rparr>))"

definition commit :: "(nat \<Rightarrow> bool) \<Rightarrow> unit io" where
  "commit fails =
     bnd (tick fails) (\<lambda>_ s.
       (Inr (), (case pending s of Some t \<Rightarrow> s\<lparr>committed := t, pending := None\<rparr> | None \<Rightarrow> s)))"

definition rollback :: "(nat \<Rightarrow> bool) \<Rightarrow> unit io" where
  "rollback fails = bnd (tick fails) (\<lambda>_ s. (Inr (), s\<lparr>pending := None\<rparr>))"

text \<open>The auto-increment primary key of \<open>orders\<close>.\<close>

definition next_order_id :: "tables \<Rightarrow> nat" where
  "next_order_id t = Suc (fold max (map o_id (orders t)) 0)"

text \<open>\<open>Order.create({...}, { transaction })\<close>; the result is the new row's id.\<close>

definition Order_create :: "(nat \<Rightarrow> bool) \<Rightarrow> order_row \<Rightarrow> nat io" where
  "Order_create fails row =
     bnd (tick fails) (\<lambda>_ s.
       (let oid = next_order_id (view True s)
        in (Inr oid, modify True (\<lambda>t. t\<lparr>orders := orders t @ [row\<lparr>o_id := oid\<rparr>]\<rparr>) s)))"

definition OrderItem_create :: "(nat \<Rightarrow> bool) \<Rightarrow> order_item_row \<Rightarrow> unit io" where
  "OrderItem_create fails row =
     bnd (tick fails) (\<lambda>_ s. (Inr (), modify True (\<lambda>t. t\<lparr>order_items := order_items t @ [row]\<rparr>) s))"

text \<open>The loop of lines 231-247, one insert per line; prices are exact rationals here.\<close>

fun create_items :: "(nat \<Rightarrow> bool) \<Rightarrow> nat \<Rightarrow> order_line list \<Rightarrow> unit io" where
  "create_items fails oid [] = ret ()"
| "create_items fails oid (item # rest) =
     bnd (OrderItem_create fails
            \<lparr>oi_order_id = oid, oi_meal_id = line_mealId item, oi_quantity = line_quantity item,
             oi_price = line_price item, oi_subtotal = line_price item * of_int (line_quantity item)\<rparr>) (\<lambda>_.
     create_items fails oid rest)"

text \<open>Lines 212-250: what runs between opening the transaction and its commit.\<close>

definition in_transaction :: "(nat \<Rightarrow> bool) \<Rightarrow> env \<Rightarrow> order_data \<Rightarrow> response io" where
  "in_transaction fails e od =
     bnd (\<lambda>s. case generateOrderNumber fails e (od_orderType od) (od_storeId od) True s of
                (a, s') \<Rightarrow> (Inr a, s')) (\<lambda>a.
     bnd (Order_create fails
            \<lparr>o_id = 0, o_order_number = orderNumber a, o_store_id = od_storeId od,
             o_total_amount = od_totalAmount od, o_order_type = od_orderType od,
             o_payment_method_id = (case od_paymentMethodId od of
                                      None \<Rightarrow> None | Some pid \<Rightarrow> if pid = 0 then None else Some pid),
             o_status = ''paid'', o_print_status = None, o_print_message = None,
             o_daily_sequence = dailySequence a\<rparr>) (\<lambda>oid.
     bnd (create_items fails oid (od_items od)) (\<lambda>_.
     bnd (commit fails) (\<lambda>_.
     ret \<lparr>resp_success = True, resp_orderNumber = orderNumber a\<rparr>))))"

text \<open>
  The whole function up to its \<open>return\<close>.  After the commit the source only reads
  the store names inside a \<open>try\<close> and schedules the print with
  \<open>setImmediate\<close>; neither can change the result or the order rows.
\<close>

definition createOrder :: "(nat \<Rightarrow> bool) \<Rightarrow> env \<Rightarrow> order_data \<Rightarrow> response io" where
  "createOrder fails e od =
     (if od_items od = [] then throw EmptyItems
      else
        (let mealIds = map line_mealId (od_items od) in
         bnd (Meal_findAll fails mealIds) (\<lambda>found.
         if length found \<noteq> length mealIds then throw PartialItems
         else
           bnd (validate_payment fails (od_paymentMethodId od)) (\<lambda>paymentMethod.
           bnd (begin_transaction fails) (\<lambda>_.
           try_catch (in_transaction fails e od)
             (\<lambda>err. bnd (rollback fails) (\<lambda>_. throw err)))))))"


section \<open>printOrderReceipt (printerService, lines 478-871)\<close>

subsection \<open>Order data and the calls into the printer library\<close>

text \<open>
  Prices and amounts reach the receipt through \<open>String(x)\<close> and template
  strings only; their type is left open and the conversion is the parameter
  \<open>num_str\<close>.  Quantities and the daily sequence are integers.  The store
  names, payment types and item names go through \<open>x || ''\<close> or a truthiness
  test, so an absent one is the empty string here.  \<open>order_number\<close> and
  \<open>order_time\<close> are strings, as \<open>createOrder\<close> passes them and the
  doc comment types them; a call without them is outside the model.
\<close>

record 'p print_item =
  item_name :: jsstring
  item_quantity :: int
  item_price :: 'p
  item_subtotal :: 'p

record 'p print_data =
  order_number :: jsstring
  daily_sequence :: "int option"
  order_type :: int
  print_items :: "'p print_item list"
  total_amount :: 'p
  total_quantity :: "int option"
  order_time :: jsstring
  store_name_zh :: jsstring
  store_name_en :: jsstring
  payment_type_zh :: jsstring
  payment_type_en :: jsstring

text \<open>
  One call of the printer library.  \<open>Pos_Text\<close> carries the text handed to
  \<open>printText\<close> (the library receives it as a UTF-16LE buffer), the encoding, the
  position (\<open>-1\<close> left, \<open>-2\<close> centred), the width and height scale, the font
  type and the style flags (\<open>0x08\<close> bold).
\<close>

datatype dll_call =
    Pos_Align int
  | Pos_Text jsstring int int rat rat int int
  | Pos_FeedLine
  | Pos_Feed_N_Line int
  | Pos_FullCutPaper

subsection \<open>Literals of the receipt\<close>

definition ticketNumberLabel :: jsstring where
  "ticketNumberLabel = js ''***'' @ [0x60A8, 0x7684, 0x865F, 0x78BC] @ js ''(Your number)***''"

definition store_no_label :: jsstring where
  "store_no_label = [0x5E97, 0x865F] @ js ''(Store No)'' @ [0xFF1A]"

definition type_label :: jsstring where
  "type_label = [0x985E, 0x578B] @ js ''(Type)'' @ [0xFF1A]"

definition type_takeout :: jsstring where
  "type_takeout = [0x5916, 0x8CE3]"

definition type_dine_in :: jsstring where
  "type_dine_in = [0x5802, 0x98DF]"

definition time_label :: jsstring where
  "time_label = [0x4EA4, 0x6613, 0x6642, 0x9593] @ js ''(Time): ''"

definition tn_label :: jsstring where
  "tn_label = [0x4EA4, 0x6613, 0x865F] @ js ''(TN): ''"

definition total_label :: jsstring where
  "total_label = [0x5408, 0x8A08] @ js '' Total''"

definition pay_type_label_zh :: jsstring where
  "pay_type_label_zh = [0x652F, 0x4ED8, 0x985E, 0x578B]"

definition payAmountLabel :: jsstring where
  "payAmountLabel = [0x652F, 0x4ED8, 0x91D1, 0x984D]"

definition thanks_zh :: jsstring where
  "thanks_zh = [0x611F, 0x8B1D, 0x60A8, 0x7684, 0x60E0, 0x9867]"

text \<open>The messages of the result, in the order of the source.\<close>

definition msg_simulated :: jsstring where
  "msg_simulated = [0x6A21, 0x62DF, 0x6253, 0x5370, 0x6210, 0x529F, 0xFF08] @ js ''DLL''
                     @ [0x672A, 0x52A0, 0x8F7D, 0xFF09]"

definition msg_cannot_open :: jsstring where
  "msg_cannot_open = [0x7121, 0x6CD5, 0x6253, 0x958B, 0x6253, 0x5370, 0x6A5F, 0xFF0C, 0x8ACB,
                      0x6AA2, 0x67E5, 0x6253, 0x5370, 0x6A5F, 0x9023, 0x63A5]"

definition msg_paper_out :: jsstring where
  "msg_paper_out = [0x6253, 0x5370, 0x6A5F, 0x7F3A, 0x7D19, 0xFF0C, 0x8ACB, 0x6DFB, 0x52A0,
                    0x7D19, 0x5F35, 0x5F8C, 0x91CD, 0x8A66]"

definition msg_offline :: jsstring where
  "msg_offline = [0x6253, 0x5370, 0x6A5F, 0x96E2, 0x7DDA, 0xFF0C, 0x8ACB, 0x6AA2, 0x67E5,
                  0x6253, 0x5370, 0x6A5F, 0x9023, 0x63A5]"

definition msg_cover_open :: jsstring where
  "msg_cover_open = [0x6253, 0x5370, 0x6A5F, 0x4E0A, 0x84CB, 0x6253, 0x958B, 0xFF0C, 0x8ACB,
                     0x95DC, 0x9589, 0x4E0A, 0x84CB, 0x5F8C, 0x91CD, 0x8A66]"

definition msg_incomplete :: jsstring where
  "msg_incomplete = [0x6253, 0x5370, 0x53EF, 0x80FD, 0x4E0D, 0x5B8C, 0x6574, 0xFF1A, 0x6AA2,
                     0x6E2C, 0x5230, 0x7F3A, 0x7D19, 0xFF0C, 0x8ACB, 0x6AA2, 0x67E5, 0x6253,
                     0x5370, 0x7D50, 0x679C]"

definition msg_ok :: jsstring where
  "msg_ok = [0x6253, 0x5370, 0x6210, 0x529F]"

definition msg_failed :: jsstring where
  "msg_failed = [0x6253, 0x5370, 0x5931, 0x6557] @ js '': ''"

subsection \<open>Constants and row builders (lines 546-560, 643-704, 760-766)\<close>

definition TRADITIONAL_CHINESE_ENCODING :: int where
  "TRADITIONAL_CHINESE_ENCODING = 3"

definition NORMAL_SIZE :: rat where
  "NORMAL_SIZE = 9 / 10"

definition SEQ_NUMBER_SIZE :: rat where
  "SEQ_NUMBER_SIZE = 1"

definition MAX_LINE_WIDTH :: nat where
  "MAX_LINE_WIDTH = 48"

definition SEPARATOR_LINE :: jsstring where
  "SEPARATOR_LINE = replicate 48 0x2D"

definition COL_WIDTH_NAME :: nat where "COL_WIDTH_NAME = 16"
definition COL_WIDTH_QTY :: nat where "COL_WIDTH_QTY = 8"
definition COL_WIDTH_PRICE :: nat where "COL_WIDTH_PRICE = 10"
definition COL_WIDTH_AMOUNT :: nat where "COL_WIDTH_AMOUNT = 14"
definition PAY_LABEL_WIDTH :: nat where "PAY_LABEL_WIDTH = 12"

definition buildTableRow :: "jsstring \<Rightarrow> jsstring \<Rightarrow> jsstring \<Rightarrow> jsstring \<Rightarrow> bool \<Rightarrow> jsstring" where
  "buildTableRow name qty price amount nameAlignCenter =
     (let namePart = (if nameAlignCenter then centerAlign name COL_WIDTH_NAME
                      else leftAlign name COL_WIDTH_NAME);
          qtyPart = centerAlign qty COL_WIDTH_QTY;
          pricePart = centerAlign price COL_WIDTH_PRICE;
          amountPart = centerAlign amount COL_WIDTH_AMOUNT
      in namePart @ qtyPart @ pricePart @ amountPart)"

definition buildLabelValueLine :: "jsstring \<Rightarrow> jsstring \<Rightarrow> jsstring" where
  "buildLabelValueLine label v = leftAlign label PAY_LABEL_WIDTH @ js ''  '' @ v"

text \<open>The separator line and the line feed after it.\<close>

definition separator :: "int \<Rightarrow> dll_call list" where
  "separator TEXT_ENCODING =
     [Pos_Text SEPARATOR_LINE TEXT_ENCODING (-1) NORMAL_SIZE NORMAL_SIZE 0 0, Pos_FeedLine]"

subsection \<open>The calls of one receipt, in order (lines 573-821)\<close>

text \<open>Step 1: store name, the caption and the short number.\<close>

definition header_calls :: "int \<Rightarrow> ('p, 'x) print_data_scheme \<Rightarrow> dll_call list" where
  "header_calls TEXT_ENCODING d =
     [Pos_Align 1]
     @ (let storeNameLine =
              (if store_name_zh d \<noteq> [] \<and> store_name_en d \<noteq> []
                 then store_name_zh d @ js '' - '' @ store_name_en d
               else if store_name_zh d \<noteq> [] then store_name_zh d
               else if store_name_en d \<noteq> [] then store_name_en d
               else [])
        in if storeNameLine \<noteq> []
           then [Pos_Text storeNameLine TRADITIONAL_CHINESE_ENCODING (-2) NORMAL_SIZE NORMAL_SIZE 0 0,
                 Pos_FeedLine]
           else [])
     @ [Pos_Text ticketNumberLabel TRADITIONAL_CHINESE_ENCODING (-2) (7 / 10) (7 / 10) 0 0,
        Pos_FeedLine]
     @ (case daily_sequence d of
          Some sq \<Rightarrow>
            (let orderTypeCode = (if order_type d = 1 then js ''T'' else js ''D'');
                 sequenceStr = js (padStart 4 (String_int sq))
             in [Pos_Text (orderTypeCode @ sequenceStr) TEXT_ENCODING (-2)
                   SEQ_NUMBER_SIZE SEQ_NUMBER_SIZE 0 0x08,
                 Pos_FeedLine])
        | None \<Rightarrow> [])"

text \<open>Steps 2 to 4: separator, store number, type, time and transaction number.\<close>

definition body_calls :: "int \<Rightarrow> ('p, 'x) print_data_scheme \<Rightarrow> dll_call list" where
  "body_calls TEXT_ENCODING d =
     [Pos_Align 0] @ separator TEXT_ENCODING
     @ (let storeNumber = (if order_number d \<noteq> [] \<and> length (order_number d) \<ge> 4
                           then take 3 (drop 1 (order_number d)) else js ''001'')
        in [Pos_Text (store_no_label @ storeNumber) TRADITIONAL_CHINESE_ENCODING (-1)
              NORMAL_SIZE NORMAL_SIZE 0 0,
            Pos_FeedLine])
     @ (let typeTextZh = (if order_type d = 1 then type_takeout else type_dine_in)
        in [Pos_Text (type_label @ typeTextZh) TRADITIONAL_CHINESE_ENCODING (-1)
              NORMAL_SIZE NORMAL_SIZE 0 0,
            Pos_FeedLine])
     @ (let timeLine = time_label @ order_time d
        in [Pos_Text (truncateText timeLine MAX_LINE_WIDTH) TRADITIONAL_CHINESE_ENCODING (-1)
              NORMAL_SIZE NORMAL_SIZE 0 0,
            Pos_FeedLine])
     @ (let orderNumLine = tn_label @ order_number d
        in [Pos_Text (truncateText orderNumLine MAX_LINE_WIDTH) TRADITIONAL_CHINESE_ENCODING (-1)
              NORMAL_SIZE NORMAL_SIZE 0 0,
            Pos_FeedLine])
     @ separator TEXT_ENCODING"

text \<open>Steps 5 to 9: the table headers, one row per item, the totals row.\<close>

definition item_calls :: "('p \<Rightarrow> jsstring) \<Rightarrow> int \<Rightarrow> ('p, 'y) print_item_scheme \<Rightarrow> dll_call list" where
  "item_calls num_str TEXT_ENCODING item =
     (let itemName = truncateText (item_name item) COL_WIDTH_NAME;
          itemRow = buildTableRow itemName (js (String_int (item_quantity item)))
                      (num_str (item_price item)) (num_str (item_subtotal item)) False
      in [Pos_Text itemRow TEXT_ENCODING (-1) NORMAL_SIZE NORMAL_SIZE 0 0, Pos_FeedLine])"

definition table_calls :: "('p \<Rightarrow> jsstring) \<Rightarrow> int \<Rightarrow> 'p print_data \<Rightarrow> dll_call list" where
  "table_calls num_str TEXT_ENCODING d =
     (let headerZh = buildTableRow [0x54C1, 0x9805] [0x6578, 0x91CF] [0x55AE, 0x50F9] [0x5C0F, 0x8A08] False
      in [Pos_Text headerZh TRADITIONAL_CHINESE_ENCODING (-1) NORMAL_SIZE NORMAL_SIZE 0 0x08,
          Pos_FeedLine])
     @ (let headerEn = buildTableRow (js ''Item'') (js ''Qty'') (js ''Unit Price'') (js ''Amount'') False
        in [Pos_Text headerEn TEXT_ENCODING (-1) NORMAL_SIZE NORMAL_SIZE 0 0x08, Pos_FeedLine])
     @ (if print_items d \<noteq> []
        then concat (map (item_calls num_str TEXT_ENCODING) (print_items d)) @ [Pos_FeedLine]
        else [])
     @ separator TEXT_ENCODING
     @ (let qtyTotal = (case total_quantity d of
                          Some q \<Rightarrow> q
                        | None \<Rightarrow> fold (\<lambda>it sum. sum + item_quantity it) (print_items d) 0);
            totalRow = buildTableRow total_label (js (String_int qtyTotal)) []
                         (js ''HK$'' @ num_str (total_amount d)) False
        in [Pos_Text totalRow TRADITIONAL_CHINESE_ENCODING (-1) NORMAL_SIZE NORMAL_SIZE 0 0x08,
            Pos_FeedLine])
     @ separator TEXT_ENCODING"

text \<open>Steps 10 to 13: payment type and the amount paid.\<close>

definition payment_calls :: "('p \<Rightarrow> jsstring) \<Rightarrow> int \<Rightarrow> 'p print_data \<Rightarrow> dll_call list" where
  "payment_calls num_str TEXT_ENCODING d =
     [Pos_Align 0, Pos_FeedLine]
     @ (let payTypeZh = truncateText (payment_type_zh d) 20;
            payTypeLineZh = buildLabelValueLine pay_type_label_zh payTypeZh
        in [Pos_Text payTypeLineZh TRADITIONAL_CHINESE_ENCODING (-1) NORMAL_SIZE NORMAL_SIZE 0 0,
            Pos_FeedLine])
     @ (let payTypeEn = truncateText (payment_type_en d) 30
        in if payTypeEn \<noteq> []
           then [Pos_Text (buildLabelValueLine (js ''Payment type'') payTypeEn) TEXT_ENCODING (-1)
                   NORMAL_SIZE NORMAL_SIZE 0 0,
                 Pos_FeedLine]
           else [])
     @ separator TEXT_ENCODING
     @ (let payAmountText = js ''HK$'' @ num_str (total_amount d);
            labelWidth = getDisplayWidth payAmountLabel;
            amountWidth = getDisplayWidth payAmountText;
            lineTotalWidth = MAX_LINE_WIDTH;
            spaceWidth = nat (max 1 (int lineTotalWidth - int labelWidth - int amountWidth));
            payAmountLine = payAmountLabel @ spaces spaceWidth @ payAmountText
        in [Pos_Text payAmountLine TRADITIONAL_CHINESE_ENCODING (-1) (3 / 2) (3 / 2) 0 0x08,
            Pos_FeedLine])
     @ separator TEXT_ENCODING"

text \<open>Steps 14 to 16 and the last line feed.\<close>

definition trailer_calls :: "int \<Rightarrow> dll_call list" where
  "trailer_calls TEXT_ENCODING =
     [Pos_Align 1, Pos_FeedLine,
      Pos_Text thanks_zh TRADITIONAL_CHINESE_ENCODING (-2) NORMAL_SIZE NORMAL_SIZE 0 0, Pos_FeedLine,
      Pos_Text (js ''Thank You!'') TEXT_ENCODING (-2) NORMAL_SIZE NORMAL_SIZE 0 0, Pos_FeedLine,
      Pos_Feed_N_Line 4,
      Pos_FullCutPaper,
      Pos_FeedLine]"

definition receipt_calls :: "('p \<Rightarrow> jsstring) \<Rightarrow> int \<Rightarrow> 'p print_data \<Rightarrow> dll_call list" where
  "receipt_calls num_str TEXT_ENCODING d =
     header_calls TEXT_ENCODING d @ body_calls TEXT_ENCODING d
     @ table_calls num_str TEXT_ENCODING d @ payment_calls num_str TEXT_ENCODING d
     @ trailer_calls TEXT_ENCODING"

subsection \<open>The device\<close>

text \<open>
  The module state is \<open>printerDll\<close> (loaded or \<open>null\<close>) and
  \<open>printerHandle\<close>.  What the library and the printer do is not in the source:
  the result of opening the port, of \<open>Port_SetPort\<close>, of the two status queries
  (\<open>None\<close> when the query throws), and for each call of the job whether it throws
  and with which message.
\<close>

datatype port_type = COM | USB | LPT | PRN | TCP | Unsupported

datatype open_outcome = OpenThrows | NullHandle | Handle

record printer_config =
  portType :: port_type
  portName_given :: bool
  textEncoding :: "int option"
  checkStatus :: bool

record device =
  dll_loaded :: bool
  handle_open :: bool
  port_open :: open_outcome
  set_port :: "bool option"
  status_before :: "int option"
  status_after :: "int option"
  call_throws :: "nat \<Rightarrow> jsstring option"

text \<open>
  \<open>openPort\<close> (lines 300-394): every failure inside its \<open>try\<close> clears the
  handle and returns \<open>false\<close>.
\<close>

definition openPort :: "printer_config \<Rightarrow> device \<Rightarrow> bool \<times> device" where
  "openPort cfg dev =
     (if \<not> dll_loaded dev then (False, dev)
      else if portType cfg = Unsupported then (False, dev\<lparr>handle_open := False\<rparr>)
      else if portType cfg = USB \<and> \<not> portName_given cfg then (False, dev\<lparr>handle_open := False\<rparr>)
      else
        (case port_open dev of
           OpenThrows \<Rightarrow> (False, dev\<lparr>handle_open := False\<rparr>)
         | NullHandle \<Rightarrow> (False, dev\<lparr>handle_open := False\<rparr>)
         | Handle \<Rightarrow>
             (case set_port dev of
                Some True \<Rightarrow> (True, dev\<lparr>handle_open := True\<rparr>)
              | _ \<Rightarrow> (False, dev\<lparr>handle_open := False\<rparr>))))"

text \<open>\<open>queryPrinterStatus\<close> (lines 885-922), its \<open>error\<close> field.\<close>

definition queryPrinterStatus :: "device \<Rightarrow> int option \<Rightarrow> int" where
  "queryPrinterStatus dev answer =
     (if \<not> dll_loaded dev \<or> \<not> handle_open dev then - 999
      else (case answer of Some errorCode \<Rightarrow> errorCode | None \<Rightarrow> - 999))"

text \<open>
  Which calls are guarded: \<open>printText\<close> wraps \<open>Pos_Text\<close> in its own
  \<open>try\<close> and returns \<open>false\<close>, and the cut is inside a \<open>try\<close> of its own.
\<close>

fun guarded :: "dll_call \<Rightarrow> bool" where
  "guarded (Pos_Text t en pos w h ft fs) = True"
| "guarded Pos_FullCutPaper = True"
| "guarded _ = False"

text \<open>
  The calls are made in order; call number \<open>k\<close> may throw.  An exception of a
  guarded call is swallowed and the job goes on; any other exception ends the job and
  propagates.  The result is the propagating message, if any, and the calls made.
\<close>

fun dispatch :: "(nat \<Rightarrow> jsstring option) \<Rightarrow> nat \<Rightarrow> dll_call list \<Rightarrow> jsstring option \<times> dll_call list" where
  "dispatch thr k [] = (None, [])"
| "dispatch thr k (c # cs) =
     (case thr k of
        Some msg \<Rightarrow>
          if guarded c then (case dispatch thr (Suc k) cs of (r, made) \<Rightarrow> (r, c # made))
          else (Some msg, [c])
      | None \<Rightarrow> (case dispatch thr (Suc k) cs of (r, made) \<Rightarrow> (r, c # made)))"

record print_result =
  success :: bool
  message :: jsstring

text \<open>Lines 518-544: the status check before printing.\<close>

definition status_check_before :: "printer_config \<Rightarrow> device \<Rightarrow> print_result option" where
  "status_check_before cfg dev =
     (if checkStatus cfg then
        (let statusBefore = queryPrinterStatus dev (status_before dev) in
         if statusBefore = - 3 then Some \<lparr>success = False, message = msg_paper_out\<rparr>
         else if statusBefore = - 1 then Some \<lparr>success = False, message = msg_offline\<rparr>
         else if statusBefore = - 2 then Some \<lparr>success = False, message = msg_cover_open\<rparr>
         else None)
      else None)"

text \<open>Lines 823-856: the status check after printing and the result.\<close>

definition result_after :: "printer_config \<Rightarrow> device \<Rightarrow> print_result" where
  "result_after cfg dev =
     (if checkStatus cfg \<and> queryPrinterStatus dev (status_after dev) = - 3
      then \<lparr>success = False, message = msg_incomplete\<rparr>
      else \<lparr>success = True, message = msg_ok\<rparr>)"

text \<open>
  The body of the \<open>try\<close>, lines 506-856: the value returned or the message of the
  exception that leaves it, the calls made, and the device with its handle.
\<close>

definition printOrderReceipt_try ::
  "('p \<Rightarrow> jsstring) \<Rightarrow> printer_config \<Rightarrow> device \<Rightarrow> 'p print_data
     \<Rightarrow> (jsstring + print_result) \<times> dll_call list \<times> device" where
  "printOrderReceipt_try num_str cfg dev d =
     (let (opened, dev1) = (if \<not> handle_open dev then openPort cfg dev else (True, dev)) in
      if \<not> opened then (Inr \<lparr>success = False, message = msg_cannot_open\<rparr>, [], dev1)
      else
        (case status_check_before cfg dev1 of
           Some r \<Rightarrow> (Inr r, [], dev1)
         | None \<Rightarrow>
             (let TEXT_ENCODING = (case textEncoding cfg of Some t \<Rightarrow> t | None \<Rightarrow> 0) in
              case dispatch (call_throws dev1) 0 (receipt_calls num_str TEXT_ENCODING d) of
                (Some msg, made) \<Rightarrow> (Inl msg, made, dev1)
              | (None, made) \<Rightarrow> (Inr (result_after cfg dev1), made, dev1))))"

text \<open>
  The whole function: the simulated result when the library is not loaded (lines
  493-504), and the outer \<open>catch\<close> (lines 858-870).
\<close>

definition printOrderReceipt ::
  "('p \<Rightarrow> jsstring) \<Rightarrow> printer_config \<Rightarrow> device \<Rightarrow> 'p print_data
     \<Rightarrow> (jsstring + print_result) \<times> dll_call list \<times> device" where
  "printOrderReceipt num_str cfg dev d =
     (if \<not> dll_loaded dev then (Inr \<lparr>success = True, message = msg_simulated\<rparr>, [], dev)
      else
        (case printOrderReceipt_try num_str cfg dev d of
           (Inl msg, made, dev') \<Rightarrow> (Inr \<lparr>success = False, message = msg_failed @ msg\<rparr>, made, dev')
         | (Inr r, made, dev') \<Rightarrow> (Inr r, made, dev')))"

text \<open>A sample receipt: prices are integers of cents printed in decimal.\<close>

definition sample_print_data :: "int print_data" where
  "sample_print_data =
     \<lparr>order_number = js ''D00120250102090507030001'', daily_sequence = Some 1, order_type = 0,
      print_items = [\<lparr>item_name = [0x725B, 0x8089, 0x9EB5], item_quantity = 2,
                      item_price = 1250, item_subtotal = 2500\<rparr>],
      total_amount = 2500, total_quantity = Some 2,
      order_time = js ''2025-01-02 09:05:07'',
      store_name_zh = [], store_name_en = [], payment_type_zh = [], payment_type_en = []\<rparr>"

definition sample_config :: printer_config where
  "sample_config = \<lparr>portType = USB, portName_given = True, textEncoding = Some 1, checkStatus = False\<rparr>"

definition sample_device :: device where
  "sample_device = \<lparr>dll_loaded = True, handle_open = True, port_open = Handle, set_port = Some True,
                     status_before = Some 1, status_after = Some 1, call_throws = (\<lambda>k. None)\<rparr>"

subsection \<open>Reading a run of printOrderReceipt\<close>

text \<open>
  The device as it is once the port has been made ready, whether the port is available,
  the text encoding taken from the configuration (line 548), and the calls a run made.
\<close>

definition ready_device :: "printer_config \<Rightarrow> device \<Rightarrow> device" where
  "ready_device cfg dev = (if \<not> handle_open dev then snd (openPort cfg dev) else dev)"

definition port_ready :: "printer_config \<Rightarrow> device \<Rightarrow> bool" where
  "port_ready cfg dev \<longleftrightarrow> handle_open dev \<or> fst (openPort cfg dev)"

definition text_encoding_of :: "printer_config \<Rightarrow> int" where
  "text_encoding_of cfg = (case textEncoding cfg of Some t \<Rightarrow> t | None \<Rightarrow> 0)"

definition calls_made :: "'a \<times> dll_call list \<times> device \<Rightarrow> dll_call list" where
  "calls_made r = fst (snd r)"

text \<open>The conversion of the sample receipt: amounts in decimal.\<close>

definition cents_str :: "int \<Rightarrow> jsstring" where
  "cents_str i = js (String_int i)"

section \<open>Reading a run of createOrder\<close>

text \<open>
  Names for the stages of \<open>createOrder\<close>, used to state what it does.  The
  validation issues one read for the catalogue and one for the payment method when an
  id is given; opening the transaction is one more operation.  \<open>validation_ok\<close>
  says that the checks of lines 177-207 pass, \<open>tx_start\<close> is the session when the
  transaction has just been opened, and \<open>alloc_run\<close> is the call of the allocator
  made there.  \<open>new_order_row\<close> and \<open>item_row\<close> are the rows that
  \<open>createOrder\<close> inserts, and \<open>persist_order\<close> is what follows the
  allocation inside the transaction: the order insert, the line inserts, the commit.
\<close>

definition payment_reads :: "order_data \<Rightarrow> nat" where
  "payment_reads od = (case od_paymentMethodId od of None \<Rightarrow> 0 | Some pid \<Rightarrow> if pid = 0 then 0 else 1)"

definition payment_ok :: "order_data \<Rightarrow> session \<Rightarrow> bool" where
  "payment_ok od s \<longleftrightarrow>
     (case od_paymentMethodId od of
        None \<Rightarrow> True
      | Some pid \<Rightarrow> pid = 0 \<or> find (\<lambda>p. pm_id p = pid \<and> pm_active p) (payment_methods (committed s)) \<noteq> None)"

definition validation_ok :: "order_data \<Rightarrow> session \<Rightarrow> bool" where
  "validation_ok od s \<longleftrightarrow>
     od_items od \<noteq> []
     \<and> length (filter (\<lambda>m. meal_id m \<in> set (map line_mealId (od_items od)) \<and> meal_active m)
                 (meals (committed s))) = length (od_items od)
     \<and> payment_ok od s"

definition tx_start :: "order_data \<Rightarrow> session \<Rightarrow> session" where
  "tx_start od s = s\<lparr>pending := Some (committed s), opcount := opcount s + payment_reads od + 2\<rparr>"

definition alloc_run :: "(nat \<Rightarrow> bool) \<Rightarrow> env \<Rightarrow> order_data \<Rightarrow> session \<Rightarrow> alloc \<times> session" where
  "alloc_run fails e od s =
     generateOrderNumber fails e (od_orderType od) (od_storeId od) True (tx_start od s)"

definition new_order_row :: "order_data \<Rightarrow> alloc \<Rightarrow> nat \<Rightarrow> order_row" where
  "new_order_row od a oid =
     \<lparr>o_id = oid, o_order_number = orderNumber a, o_store_id = od_storeId od,
      o_total_amount = od_totalAmount od, o_order_type = od_orderType od,
      o_payment_method_id = (case od_paymentMethodId od of
                               None \<Rightarrow> None | Some pid \<Rightarrow> if pid = 0 then None else Some pid),
      o_status = ''paid'', o_print_status = None, o_print_message = None,
      o_daily_sequence = dailySequence a\<rparr>"

definition item_row :: "nat \<Rightarrow> order_line \<Rightarrow> order_item_row" where
  "item_row oid item =
     \<lparr>oi_order_id = oid, oi_meal_id = line_mealId item, oi_quantity = line_quantity item,
      oi_price = line_price item, oi_subtotal = line_price item * of_int (line_quantity item)\<rparr>"

definition persist_order :: "(nat \<Rightarrow> bool) \<Rightarrow> order_data \<Rightarrow> alloc \<Rightarrow> response io" where
  "persist_order fails od a =
     bnd (Order_create fails (new_order_row od a 0)) (\<lambda>oid.
     bnd (create_items fails oid (od_items od)) (\<lambda>_.
     bnd (commit fails) (\<lambda>_.
     ret \<lparr>resp_success = True, resp_orderNumber = orderNumber a\<rparr>)))"

section \<open>Predicates used in the proofs\<close>

text \<open>
  \<open>keeps\<close>: the computation changes neither the committed tables nor the open
  transaction.  \<open>tx_safe\<close>: run inside an open transaction, it leaves the committed
  tables alone and the transaction open.  \<open>err_safe\<close>: run inside an open
  transaction, it leaves the committed tables alone whenever it throws.
\<close>

definition keeps :: "'a io \<Rightarrow> bool" where
  "keeps m \<longleftrightarrow> (\<forall>s r s'. m s = (r, s') \<longrightarrow> committed s' = committed s \<and> pending s' = pending s)"

definition tx_safe :: "'a io \<Rightarrow> bool" where
  "tx_safe m \<longleftrightarrow>
     (\<forall>s r s'. m s = (r, s') \<longrightarrow> pending s \<noteq> None \<longrightarrow> committed s' = committed s \<and> pending s' \<noteq> None)"

definition err_safe :: "'a io \<Rightarrow> bool" where
  "err_safe m \<longleftrightarrow>
     (\<forall>s err s'. m s = (Inl err, s') \<longrightarrow> pending s \<noteq> None \<longrightarrow> committed s' = committed s)"

text \<open>
  \<open>settings_only\<close>: run inside an open transaction, the computation leaves the
  transaction open and the order and line rows of its working copy as they were.
\<close>

definition settings_only :: "'a io \<Rightarrow> bool" where
  "settings_only m \<longleftrightarrow>
     (\<forall>s r s' t. m s = (r, s') \<longrightarrow> pending s = Some t \<longrightarrow>
        (\<exists>t'. pending s' = Some t' \<and> orders t' = orders t \<and> order_items t' = order_items t))"

section \<open>Sample data\<close>

text \<open>
  A clock reading of 2 January 2025, 09:05:07; tables as the previous day left them,
  with dine-in counter 3 and takeout counter 7; one order of two portions of meal 5.
\<close>

definition clock_jan2 :: env where
  "clock_jan2 = \<lparr>fullYear = 2025, month0 = 0, dayOfMonth = 2, hours = 9, minutes = 5, seconds = 7,
                  random100 = 3, epoch_ms = 1735808707123\<rparr>"

definition tables_jan1 :: tables where
  "tables_jan1 =
     \<lparr>settings = [''daily_sequence_date'' \<mapsto> Json (JStr ''20250101''),
                  ''daily_dine_in_sequence'' \<mapsto> Json (JNum 3),
                  ''daily_takeout_sequence'' \<mapsto> Json (JNum 7)],
      meals = [\<lparr>meal_id = 5, meal_active = True\<rparr>],
      payment_methods = [], orders = [], order_items = []\<rparr>"

definition session_jan1 :: session where
  "session_jan1 = \<lparr>committed = tables_jan1, pending = None, opcount = 0\<rparr>"

definition order_one :: order_data where
  "order_one = \<lparr>od_items = [\<lparr>line_mealId = 5, line_quantity = 2, line_price = 25 / 2\<rparr>],
                 od_totalAmount = 25, od_storeId = 1, od_orderType = 0, od_paymentMethodId = None\<rparr>"

section \<open>Display width of concatenations\<close>

lemma fold_width_step: "fold width_step str w = w + fold width_step str 0"
proof (induction str arbitrary: w)
  case Nil
  show ?case by simp
next
  case (Cons c cs)
  have "fold width_step (c # cs) w = fold width_step cs (width_step c w)" by simp
  also have "\<dots> = width_step c w + fold width_step cs 0" by (rule Cons.IH)
  also have "\<dots> = w + (width_step c 0 + fold width_step cs 0)"
    by (simp add: width_step_def)
  also have "width_step c 0 + fold width_step cs 0 = fold width_step cs (width_step c 0)"
    by (rule Cons.IH [symmetric])
  finally show ?case by simp
qed

lemma getDisplayWidth_Nil: "getDisplayWidth [] = 0"
  by (simp add: getDisplayWidth_def)

lemma getDisplayWidth_Cons:
  "getDisplayWidth (c # cs) = (if is_cjk c then 2 else 1) + getDisplayWidth cs"
proof -
  have "fold width_step cs (width_step c 0) = width_step c 0 + fold width_step cs 0"
    by (rule fold_width_step)
  then show ?thesis
    by (simp add: getDisplayWidth_def width_step_def)
qed

lemma getDisplayWidth_append:
  "getDisplayWidth (xs @ ys) = getDisplayWidth xs + getDisplayWidth ys"
  by (induction xs) (simp_all add: getDisplayWidth_Nil getDisplayWidth_Cons)

lemma space_not_cjk: "\<not> is_cjk 0x20"
  by (simp add: is_cjk_def)

lemma getDisplayWidth_spaces: "getDisplayWidth (spaces n) = n"
  by (induction n) (simp_all add: spaces_def getDisplayWidth_Nil getDisplayWidth_Cons space_not_cjk)

lemma pad_amount_le: "d \<le> w \<Longrightarrow> pad_amount w d = w - d"
  by (simp add: pad_amount_def)

section \<open>Alignment pads to the exact column width\<close>

text \<open>
  Claim C7.  For every string whose display width (a CJK code unit counts 2, any other
  1) is at most the target width, \<open>leftAlign\<close>, \<open>centerAlign\<close> and
  \<open>rightAlign\<close> each return a string of display width exactly the target width;
  the result is the original text with spaces added (on the right, on both sides with
  the smaller half on the left, on the left).
\<close>

theorem align_exact_width:
  assumes "getDisplayWidth str \<le> w"
  shows "getDisplayWidth (leftAlign str w) = w
       \<and> getDisplayWidth (centerAlign str w) = w
       \<and> getDisplayWidth (rightAlign str w) = w
       \<and> leftAlign str w = str @ spaces (w - getDisplayWidth str)
       \<and> centerAlign str w =
           spaces ((w - getDisplayWidth str) div 2) @ str
           @ spaces ((w - getDisplayWidth str) - (w - getDisplayWidth str) div 2)
       \<and> rightAlign str w = spaces (w - getDisplayWidth str) @ str"
proof -
  have p: "pad_amount w (getDisplayWidth str) = w - getDisplayWidth str"
    using assms by (rule pad_amount_le)
  have l: "leftAlign str w = str @ spaces (w - getDisplayWidth str)"
    by (simp add: leftAlign_def Let_def p)
  have c: "centerAlign str w =
           spaces ((w - getDisplayWidth str) div 2) @ str
           @ spaces ((w - getDisplayWidth str) - (w - getDisplayWidth str) div 2)"
    by (simp add: centerAlign_def Let_def p)
  have r: "rightAlign str w = spaces (w - getDisplayWidth str) @ str"
    by (simp add: rightAlign_def Let_def p)
  have wl: "getDisplayWidth (leftAlign str w) = w"
    using assms by (simp add: l getDisplayWidth_append getDisplayWidth_spaces)
  have wc: "getDisplayWidth (centerAlign str w) = w"
    using assms by (simp add: c getDisplayWidth_append getDisplayWidth_spaces)
  have wr: "getDisplayWidth (rightAlign str w) = w"
    using assms by (simp add: r getDisplayWidth_append getDisplayWidth_spaces)
  from wl wc wr l c r show ?thesis by blast
qed

text \<open>
  Two CJK characters and a letter, \<open>U+54C1 U+9805 A\<close>, of width 5, in a column
  of 16 units.
\<close>

theorem align_exact_width_witness:
  "getDisplayWidth [0x54C1, 0x9805, 0x41] \<le> 16
   \<and> getDisplayWidth (leftAlign [0x54C1, 0x9805, 0x41] 16) = 16
   \<and> getDisplayWidth (centerAlign [0x54C1, 0x9805, 0x41] 16) = 16
   \<and> getDisplayWidth (rightAlign [0x54C1, 0x9805, 0x41] 16) = 16
   \<and> centerAlign [0x54C1, 0x9805, 0x41] 16
       = spaces 5 @ [0x54C1, 0x9805, 0x41] @ spaces 6"
proof -
  have w: "getDisplayWidth [0x54C1, 0x9805, 0x41] = 5"
    by (simp add: getDisplayWidth_def width_step_def is_cjk_def)
  have h: "getDisplayWidth [0x54C1, 0x9805, 0x41] \<le> 16"
    by (simp add: w)
  note t = align_exact_width [OF h, unfolded w]
  from t have c: "centerAlign [0x54C1, 0x9805, 0x41] 16
       = spaces 5 @ [0x54C1, 0x9805, 0x41] @ spaces 6"
    by simp
  from h t c show ?thesis by blast
qed

section \<open>Truncation counts code units, not display width\<close>

text \<open>
  Claim C6.  The claim: truncation is measured in display-width units, so an item name
  wider than 16 units is cut to at most 16 units and no truncated text exceeds its
  budget.  The code compares \<open>str.length\<close>, the number of code units.  A name
  of nine CJK characters has length 9, is returned unchanged by
  \<open>truncateText(name, 16)\<close> and is 18 units wide; a name of twenty CJK characters
  is cut to fifteen characters and the ellipsis, 31 units wide.
\<close>

theorem truncateText_cjk_overflow:
  "truncateText (replicate 9 0x725B) 16 = replicate 9 0x725B
   \<and> getDisplayWidth (truncateText (replicate 9 0x725B) 16) = 18
   \<and> truncateText (replicate 20 0x725B) 16 = replicate 15 0x725B @ [ellipsis]
   \<and> getDisplayWidth (truncateText (replicate 20 0x725B) 16) = 31"
proof -
  have c: "is_cjk 0x725B" by (simp add: is_cjk_def)
  have e: "\<not> is_cjk ellipsis" by (simp add: is_cjk_def ellipsis_def)
  have wr: "getDisplayWidth (replicate n 0x725B) = 2 * n" for n
    by (induction n) (simp_all add: getDisplayWidth_Nil getDisplayWidth_Cons c)
  have t9: "truncateText (replicate 9 0x725B) 16 = replicate 9 0x725B"
    by (simp add: truncateText_def)
  have t20: "truncateText (replicate 20 0x725B) 16 = replicate 15 0x725B @ [ellipsis]"
    by (simp add: truncateText_def)
  have w20: "getDisplayWidth (replicate 15 0x725B @ [ellipsis]) = 31"
    by (simp add: getDisplayWidth_append wr getDisplayWidth_Cons getDisplayWidth_Nil e)
  show ?thesis
    by (simp only: t9 t20 w20 wr) simp
qed

section \<open>The store operations without faults\<close>


lemma digits_of_small: "n < 10 \<Longrightarrow> digits_of n = [digit_char n]"
  by (subst digits_of.simps) simp

lemma digits_of_big: "10 \<le> n \<Longrightarrow> digits_of n = digits_of (n div 10) @ [digit_char (n mod 10)]"
  by (subst digits_of.simps) simp

lemma replicate_numeral_unfold: "replicate (numeral k) x = x # replicate (pred_numeral k) x"
  by (simp add: numeral_eq_Suc)

lemmas string_eval = digits_of_small digits_of_big digit_char_def String_int_def String_num_def
  padStart_def slice_last_def replicate_numeral_unfold

lemma view_opcount: "view tx (s\<lparr>opcount := k\<rparr>) = view tx s"
  by (simp add: view_def split: option.splits)


lemma modify_opcount: "modify tx f (s\<lparr>opcount := k\<rparr>) = (modify tx f s)\<lparr>opcount := k\<rparr>"
  by (simp add: modify_def split: option.splits)

lemma tick_ok: "\<not> fails (opcount s) \<Longrightarrow> tick fails s = (Inr (), s\<lparr>opcount := Suc (opcount s)\<rparr>)"
  by (simp add: tick_def)

lemma Settings_findOne_ok:
  "\<not> fails (opcount s) \<Longrightarrow>
   Settings_findOne fails tx key s = (Inr (settings (view tx s) key), s\<lparr>opcount := Suc (opcount s)\<rparr>)"
  by (simp add: Settings_findOne_def bnd_def tick_def view_opcount)

lemma Settings_findOne_fail:
  "fails (opcount s) \<Longrightarrow>
   Settings_findOne fails tx key s = (Inl (DbError (opcount s)), s\<lparr>opcount := Suc (opcount s)\<rparr>)"
  by (simp add: Settings_findOne_def bnd_def tick_def)

lemma setting_update_ok:
  "\<not> fails (opcount s) \<Longrightarrow>
   setting_update fails tx key v s =
     (Inr (), (modify tx (\<lambda>t. t\<lparr>settings := (settings t)(key \<mapsto> v)\<rparr>) s)\<lparr>opcount := Suc (opcount s)\<rparr>)"
  by (simp add: setting_update_def bnd_def tick_def modify_opcount)

lemma Settings_create_ok:
  "\<not> fails (opcount s) \<Longrightarrow>
   Settings_create fails tx key v s =
     (Inr (), (modify tx (\<lambda>t. t\<lparr>settings := (settings t)(key \<mapsto> v)\<rparr>) s)\<lparr>opcount := Suc (opcount s)\<rparr>)"
  by (simp add: Settings_create_def bnd_def tick_def modify_opcount)

lemma opcount_modify: "opcount (modify tx f s) = opcount s"
  by (simp add: modify_def split: option.splits)


lemma next_sequence_new_day:
  assumes nf: "\<forall>k. \<not> fails k"
    and d: "currentDate_of dateSetting \<noteq> Some (JStr today)"
  shows "next_sequence fails tx ot today sequenceSetting dateSetting s =
           (Inr 1, (modify tx (\<lambda>t. t\<lparr>settings := (settings t)(sequenceKey ot \<mapsto> Json (JNum 1))\<rparr>)
                     (modify tx (\<lambda>t. t\<lparr>settings := (settings t)(dateKey \<mapsto> Json (JStr today))\<rparr>) s))
                 \<lparr>opcount := Suc (Suc (opcount s))\<rparr>)"
  using nf d
  by (simp add: next_sequence_def bnd_def ret_def setting_update_ok Settings_create_ok
      JSON_stringify_def opcount_modify modify_opcount split: option.splits)

lemma generateOrderNumber_try_ok:
  assumes nf: "\<forall>k. \<not> fails k"
  shows "generateOrderNumber_try fails e ot sid tx s =
     bnd (next_sequence fails tx ot (dateStr e) (settings (view tx s) (sequenceKey ot))
             (settings (view tx s) dateKey))
         (\<lambda>n. ret \<lparr>orderNumber = (if ot = 1 then ''T'' else ''D'')
                   @ storeNumber_of (settings (view tx s) ''store_number'') sid
                   @ dateStr e @ timeStr e @ nodeNumber e @ padStart 4 (String_int n),
                dailySequence = n\<rparr>)
         (s\<lparr>opcount := Suc (Suc (Suc (opcount s)))\<rparr>)"
  using nf
  by (simp add: generateOrderNumber_try_def Let_def bnd_def Settings_findOne_ok view_opcount)


lemma generateOrderNumber_new_day:
  assumes nf: "\<forall>k. \<not> fails k"
    and d: "currentDate_of (settings (view tx s) dateKey) \<noteq> Some (JStr (dateStr e))"
  shows "generateOrderNumber fails e ot sid tx s =
     (\<lparr>orderNumber = (if ot = 1 then ''T'' else ''D'')
                   @ storeNumber_of (settings (view tx s) ''store_number'') sid
                   @ dateStr e @ timeStr e @ nodeNumber e @ padStart 4 (String_int 1),
                dailySequence = 1\<rparr>,
      (modify tx (\<lambda>t. t\<lparr>settings := (settings t)(sequenceKey ot \<mapsto> Json (JNum 1))\<rparr>)
                     (modify tx (\<lambda>t. t\<lparr>settings := (settings t)(dateKey \<mapsto> Json (JStr (dateStr e)))\<rparr>) s))
                 \<lparr>opcount := opcount s + 5\<rparr>)"
  by (simp add: generateOrderNumber_def generateOrderNumber_try_ok [OF nf] bnd_def ret_def
      next_sequence_new_day [OF nf d] modify_opcount)




lemma keeps_ret: "keeps (ret x)" by (simp add: keeps_def ret_def)
lemma keeps_throw: "keeps (throw x)" by (simp add: keeps_def throw_def)
lemma keeps_tick: "keeps (tick fails)" by (auto simp: keeps_def tick_def split: if_splits)
lemma keeps_bnd: "keeps m \<Longrightarrow> (\<And>x. keeps (f x)) \<Longrightarrow> keeps (bnd m f)"
  unfolding keeps_def bnd_def
  by (auto split: prod.splits sum.splits)

lemma keeps_Meal_findAll: "keeps (Meal_findAll fails ids)"
  unfolding Meal_findAll_def by (intro keeps_bnd keeps_tick) (simp add: keeps_def)

lemma keeps_validate_payment: "keeps (validate_payment fails pm)"
  by (auto simp: keeps_def validate_payment_def PaymentMethod_findOne_def bnd_def tick_def
      ret_def throw_def split: option.splits if_splits)

lemma tx_safe_ret: "tx_safe (ret x)" by (simp add: tx_safe_def ret_def)
lemma tx_safe_throw: "tx_safe (throw x)" by (simp add: tx_safe_def throw_def)
lemma tx_safe_tick: "tx_safe (tick fails)" by (auto simp: tx_safe_def tick_def split: if_splits)
lemma tx_safe_bnd: "tx_safe m \<Longrightarrow> (\<And>x. tx_safe (f x)) \<Longrightarrow> tx_safe (bnd m f)"
  unfolding tx_safe_def bnd_def
  by (auto split: prod.splits sum.splits)
lemma tx_safe_try_catch: "tx_safe m \<Longrightarrow> (\<And>x. tx_safe (h x)) \<Longrightarrow> tx_safe (try_catch m h)"
  unfolding tx_safe_def try_catch_def
  by (auto split: prod.splits sum.splits)

lemma tx_safe_modify: "tx_safe (\<lambda>s. (Inr x, modify True f s))"
  by (auto simp: tx_safe_def modify_def)

lemma tx_safe_read: "tx_safe (\<lambda>s. (Inr (g s), s))"
  by (auto simp: tx_safe_def)

lemma tx_safe_Settings_findOne: "tx_safe (Settings_findOne fails True key)"
  unfolding Settings_findOne_def by (intro tx_safe_bnd tx_safe_tick tx_safe_read)

lemma tx_safe_setting_update: "tx_safe (setting_update fails True key v)"
  unfolding setting_update_def by (intro tx_safe_bnd tx_safe_tick tx_safe_modify)

lemma tx_safe_Settings_create: "tx_safe (Settings_create fails True key v)"
  unfolding Settings_create_def by (intro tx_safe_bnd tx_safe_tick tx_safe_modify)

lemmas tx_safe_basic = tx_safe_ret tx_safe_throw tx_safe_tick tx_safe_bnd tx_safe_try_catch
  tx_safe_Settings_findOne tx_safe_setting_update tx_safe_Settings_create

lemma tx_safe_next_sequence: "tx_safe (next_sequence fails True ot today ss ds)"
  unfolding next_sequence_def Let_def
  by (auto split: option.splits sum.splits intro!: tx_safe_basic)

lemma tx_safe_generateOrderNumber_try: "tx_safe (generateOrderNumber_try fails e ot sid True)"
  unfolding generateOrderNumber_try_def Let_def
  by (intro tx_safe_basic tx_safe_next_sequence)

lemma tx_safe_generateOrderNumber:
  "tx_safe (\<lambda>s. case generateOrderNumber fails e ot sid True s of (a, s') \<Rightarrow> (Inr a, s'))"
  using tx_safe_generateOrderNumber_try [of fails e ot sid]
  unfolding tx_safe_def generateOrderNumber_def
  by (auto split: prod.splits sum.splits)

lemma tx_safe_Order_create: "tx_safe (Order_create fails row)"
  unfolding Order_create_def Let_def
  by (intro tx_safe_bnd tx_safe_tick) (auto simp: tx_safe_def modify_def)

lemma tx_safe_OrderItem_create: "tx_safe (OrderItem_create fails row)"
  unfolding OrderItem_create_def by (intro tx_safe_bnd tx_safe_tick tx_safe_modify)

lemma tx_safe_create_items: "tx_safe (create_items fails oid ls)"
  by (induction ls) (auto intro!: tx_safe_basic tx_safe_OrderItem_create)

lemma err_safe_bnd: "tx_safe m \<Longrightarrow> (\<And>x. err_safe (f x)) \<Longrightarrow> err_safe (bnd m f)"
  unfolding tx_safe_def err_safe_def bnd_def
  by (auto split: prod.splits sum.splits)

lemma err_safe_commit: "err_safe (bnd (commit fails) (\<lambda>_. ret x))"
  by (auto simp: err_safe_def bnd_def commit_def tick_def ret_def split: if_splits)

lemma err_safe_in_transaction: "err_safe (in_transaction fails e od)"
  unfolding in_transaction_def
  by (intro err_safe_bnd tx_safe_generateOrderNumber tx_safe_Order_create tx_safe_create_items
      err_safe_commit)

lemma begin_transaction_cases:
  "begin_transaction fails s = (r, s') \<Longrightarrow>
     committed s' = committed s \<and> (case r of Inl _ \<Rightarrow> pending s' = pending s | Inr _ \<Rightarrow> pending s' \<noteq> None)"
  by (auto simp: begin_transaction_def bnd_def tick_def split: if_splits)

lemma rollback_committed: "rollback fails s = (r, s') \<Longrightarrow> committed s' = committed s"
  by (auto simp: rollback_def bnd_def tick_def split: if_splits)

lemma recover_committed:
  assumes "try_catch (in_transaction fails e od) (\<lambda>err. bnd (rollback fails) (\<lambda>_. throw err)) s = (Inl err, s')"
    and "pending s \<noteq> None"
  shows "committed s' = committed s"
proof -
  obtain r1 s1 where i: "in_transaction fails e od s = (r1, s1)"
    by (cases "in_transaction fails e od s")
  show ?thesis
  proof (cases r1)
    case (Inr x)
    with assms(1) i show ?thesis by (simp add: try_catch_def)
  next
    case (Inl e1)
    with i assms(2) err_safe_in_transaction [of fails e od]
    have c1: "committed s1 = committed s" by (auto simp: err_safe_def)
    obtain r2 s2 where rb: "rollback fails s1 = (r2, s2)" by (cases "rollback fails s1")
    from rb have c2: "committed s2 = committed s1" by (rule rollback_committed)
    from assms(1) i Inl rb have "s' = s2"
      by (auto simp: try_catch_def bnd_def throw_def split: sum.splits)
    with c1 c2 show ?thesis by simp
  qed
qed

lemma createOrder_error_keeps_committed:
  assumes r: "createOrder fails e od s = (Inl err, s')"
  shows "committed s' = committed s"
proof (cases "od_items od = []")
  case True
  with r show ?thesis by (simp add: createOrder_def throw_def)
next
  case False
  let ?ids = "map line_mealId (od_items od)"
  obtain r1 s1 where f: "Meal_findAll fails ?ids s = (r1, s1)" by (cases "Meal_findAll fails ?ids s")
  from f keeps_Meal_findAll [of fails ?ids] have k1: "committed s1 = committed s" "pending s1 = pending s"
    by (auto simp: keeps_def)
  show ?thesis
  proof (cases r1)
    case (Inl e1)
    with r f False have "s' = s1" by (simp add: createOrder_def Let_def bnd_def)
    with k1 show ?thesis by simp
  next
    case (Inr found)
    show ?thesis
    proof (cases "length found \<noteq> length ?ids")
      case True
      with r f False Inr have "s' = s1" by (simp add: createOrder_def Let_def bnd_def throw_def)
      with k1 show ?thesis by simp
    next
      case lenok: False
      obtain r2 s2 where v: "validate_payment fails (od_paymentMethodId od) s1 = (r2, s2)"
        by (cases "validate_payment fails (od_paymentMethodId od) s1")
      from v keeps_validate_payment [of fails "od_paymentMethodId od"]
      have k2: "committed s2 = committed s1" "pending s2 = pending s1"
        by (auto simp: keeps_def)
      show ?thesis
      proof (cases r2)
        case (Inl e2)
        with r f False Inr lenok v have "s' = s2" by (simp add: createOrder_def Let_def bnd_def)
        with k1 k2 show ?thesis by simp
      next
        case pm: (Inr paymentMethod)
        obtain r3 s3 where b: "begin_transaction fails s2 = (r3, s3)"
          by (cases "begin_transaction fails s2")
        note k3 = begin_transaction_cases [OF b]
        show ?thesis
        proof (cases r3)
          case (Inl e3)
          with r f False Inr lenok v pm b have "s' = s3" by (simp add: createOrder_def Let_def bnd_def)
          with k1 k2 k3 show ?thesis by simp
        next
          case tx: (Inr u)
          with k3 have p3: "pending s3 \<noteq> None" by simp
          from r f False Inr lenok v pm b tx
          have "try_catch (in_transaction fails e od) (\<lambda>err. bnd (rollback fails) (\<lambda>_. throw err)) s3 = (Inl err, s')"
            by (simp add: createOrder_def Let_def bnd_def)
          from recover_committed [OF this p3] k1 k2 k3 show ?thesis by simp
        qed
      qed
    qed
  qed
qed

lemma filter_dup_short:
  assumes d: "distinct (map meal_id ms)" and nd: "\<not> distinct ids"
  shows "length (filter (\<lambda>m. meal_id m \<in> set ids \<and> meal_active m) ms) < length ids"
proof -
  let ?F = "filter (\<lambda>m. meal_id m \<in> set ids \<and> meal_active m) ms"
  have dF: "distinct (map meal_id ?F)" using d by (rule distinct_map_filter)
  have sub: "set (map meal_id ?F) \<subseteq> set ids" by auto
  have "length ?F = length (map meal_id ?F)" by simp
  also have "\<dots> = card (set (map meal_id ?F))" by (rule distinct_card [OF dF, symmetric])
  also have "\<dots> \<le> card (set ids)" using sub by (intro card_mono) simp_all
  also have "\<dots> < length ids"
    using nd card_distinct [of ids] card_length [of ids] by (cases "card (set ids) = length ids") auto
  finally show ?thesis .
qed


section \<open>Evaluating the sample data\<close>

lemma dateStr_jan2: "dateStr clock_jan2 = ''20250102''"
  by (simp add: dateStr_def clock_jan2_def string_eval)

lemma timeStr_jan2: "timeStr clock_jan2 = ''090507''"
  by (simp add: timeStr_def clock_jan2_def string_eval)

lemma nodeNumber_jan2: "nodeNumber clock_jan2 = ''03''"
  by (simp add: nodeNumber_def clock_jan2_def string_eval)

lemma fallback_jan2: "fallback clock_jan2 = \<lparr>orderNumber = ''OF08707123'', dailySequence = 0\<rparr>"
  by (simp add: fallback_def clock_jan2_def string_eval)

lemmas io_eval = bnd_def ret_def throw_def try_catch_def tick_def view_def modify_def
  Settings_findOne_def setting_update_def Settings_create_def Meal_findAll_def
  PaymentMethod_findOne_def validate_payment_def begin_transaction_def commit_def rollback_def
  Order_create_def OrderItem_create_def next_order_id_def

lemmas alloc_eval = generateOrderNumber_def generateOrderNumber_try_def next_sequence_def
  currentDate_of_def storeNumber_of_def store_id_code_def sequenceKey_def dateKey_def
  JSON_parse_def JSON_stringify_def parseInt_val_def or_zero_def

lemmas sample_eval = order_one_def session_jan1_def tables_jan1_def fallback_jan2 dateStr_jan2
  timeStr_jan2 nodeNumber_jan2

section \<open>The daily sequence\<close>



text \<open>
  Claim C2.  The claim: after a change of day the first allocation of each order type
  returns 1.  The date is one row shared by both counters.  On the tables of 1 January
  (dine-in 3, takeout 7) the first dine-in order of 2 January writes today's date and
  resets the dine-in counter only; the first takeout order of the day then finds
  today's date, increments yesterday's counter and returns 8.
\<close>

theorem rollover_resets_only_first_kind:
  "dailySequence (fst (generateOrderNumber (\<lambda>_. False) clock_jan2 0 1 False session_jan1)) = 1
   \<and> dailySequence (fst (generateOrderNumber (\<lambda>_. False) clock_jan2 1 1 False
        (snd (generateOrderNumber (\<lambda>_. False) clock_jan2 0 1 False session_jan1)))) = 8"
  by (simp add: io_eval alloc_eval sample_eval Let_def string_eval)

section \<open>The composed order number\<close>

text \<open>
  Claim C4.  The claim: every order number that is not the fallback is one letter, three
  digits, eight, six and two digits and the sequence.  The store number is
  \<open>parseInt(JSON.parse(value))\<close> turned into a string; the inner handler only
  covers \<open>JSON.parse\<close> throwing.  With the setting \<open>store_number\<close> holding
  the JSON string \<open>"abc"\<close>, \<open>parseInt\<close> gives \<open>NaN\<close> and the order
  number carries the letters \<open>NaN\<close> in place of the three digits.
\<close>

theorem store_number_not_numeric:
  "orderNumber (fst (generateOrderNumber (\<lambda>_. False) clock_jan2 0 1 False
      (session_jan1\<lparr>committed := tables_jan1\<lparr>settings :=
          (settings tables_jan1)(''store_number'' \<mapsto> Json (JStr ''abc''))\<rparr>\<rparr>)))
   = ''DNaN20250102090507030001''"
  by (simp add: io_eval alloc_eval sample_eval Let_def string_eval parseInt_def is_ws_def
      dec_digit_def hex_digit_def)

text \<open>
  The part of the claim about long sequences holds: from a counter of 9999 the next
  allocation of the day returns 10000, and the last field of the order number has five
  digits.
\<close>

lemma sequence_past_9999_has_five_digits:
  "generateOrderNumber (\<lambda>_. False) clock_jan2 0 1 False
      (session_jan1\<lparr>committed := tables_jan1\<lparr>settings :=
          (settings tables_jan1)(''daily_sequence_date'' \<mapsto> Json (JStr ''20250102''),
                                 ''daily_dine_in_sequence'' \<mapsto> Json (JNum 9999))\<rparr>\<rparr>)
   = (\<lparr>orderNumber = ''D0012025010209050703'' @ ''10000'', dailySequence = 10000\<rparr>,
      \<lparr>committed = tables_jan1\<lparr>settings :=
          (settings tables_jan1)(''daily_sequence_date'' \<mapsto> Json (JStr ''20250102''),
                                 ''daily_dine_in_sequence'' \<mapsto> Json (JNum 10000))\<rparr>,
       pending = None, opcount = 4\<rparr>)"
  by (simp add: io_eval alloc_eval sample_eval Let_def string_eval)

section \<open>The stages of createOrder\<close>

text \<open>A failing read of the allocator: the outer handler returns the fallback.\<close>

lemma generateOrderNumber_read_fails:
  assumes "fails (opcount s) \<or> fails (Suc (opcount s)) \<or> fails (Suc (Suc (opcount s)))"
  shows "generateOrderNumber fails e ot sid tx s
           = (fallback e,
              s\<lparr>opcount := (if fails (opcount s) then opcount s + 1
                             else if fails (Suc (opcount s)) then opcount s + 2 else opcount s + 3)\<rparr>)"
proof (cases "fails (opcount s)")
  case True
  then show ?thesis
    by (simp add: generateOrderNumber_def generateOrderNumber_try_def Let_def bnd_def
        Settings_findOne_fail)
next
  case f0: False
  show ?thesis
  proof (cases "fails (Suc (opcount s))")
    case True
    with f0 show ?thesis
      by (simp add: generateOrderNumber_def generateOrderNumber_try_def Let_def bnd_def
          Settings_findOne_fail Settings_findOne_ok)
  next
    case f1: False
    with f0 assms have "fails (Suc (Suc (opcount s)))" by simp
    with f0 f1 show ?thesis
      by (simp add: generateOrderNumber_def generateOrderNumber_try_def Let_def bnd_def
          Settings_findOne_fail Settings_findOne_ok)
  qed
qed

lemma in_transaction_persist:
  "in_transaction fails e od s =
     (case generateOrderNumber fails e (od_orderType od) (od_storeId od) True s of
        (a, s') \<Rightarrow> persist_order fails od a s')"
  by (simp add: in_transaction_def persist_order_def new_order_row_def bnd_def split: prod.splits)

lemma view_False: "view False s = committed s"
  by (simp add: view_def split: option.splits)

lemma createOrder_after_validation:
  assumes v: "validation_ok od s"
    and nf: "\<forall>k. opcount s \<le> k \<and> k < opcount s + payment_reads od + 2 \<longrightarrow> \<not> fails k"
  shows "createOrder fails e od s =
           try_catch (in_transaction fails e od) (\<lambda>err. bnd (rollback fails) (\<lambda>_. throw err))
             (tx_start od s)"
proof -
  from v have ne: "od_items od \<noteq> []"
    and len: "length (filter (\<lambda>m. meal_id m \<in> set (map line_mealId (od_items od)) \<and> meal_active m)
                 (meals (committed s))) = length (od_items od)"
    and pay: "payment_ok od s"
    by (simp_all add: validation_ok_def)
  from nf have f0: "\<not> fails (opcount s)" by simp
  have m: "Meal_findAll fails (map line_mealId (od_items od)) s =
             (Inr (filter (\<lambda>m. meal_id m \<in> set (map line_mealId (od_items od)) \<and> meal_active m)
                 (meals (committed s))), s\<lparr>opcount := Suc (opcount s)\<rparr>)"
    using f0 by (simp add: Meal_findAll_def bnd_def tick_def view_False)
  show ?thesis
  proof (cases "payment_reads od = 0")
    case True
    then have vp: "validate_payment fails (od_paymentMethodId od) (s\<lparr>opcount := Suc (opcount s)\<rparr>)
                     = (Inr None, s\<lparr>opcount := Suc (opcount s)\<rparr>)"
      by (auto simp: payment_reads_def validate_payment_def ret_def split: option.splits if_splits)
    from nf True have f1: "\<not> fails (Suc (opcount s))" by simp
    have b: "begin_transaction fails (s\<lparr>opcount := Suc (opcount s)\<rparr>) = (Inr (), tx_start od s)"
      using f1 True by (simp add: begin_transaction_def bnd_def tick_def tx_start_def)
    show ?thesis
      using ne len by (simp add: createOrder_def Let_def bnd_def m vp b)
  next
    case False
    then obtain pid where pid: "od_paymentMethodId od = Some pid" "pid \<noteq> 0"
      by (auto simp: payment_reads_def split: option.splits if_splits)
    then have pr: "payment_reads od = 1" by (simp add: payment_reads_def)
    from pay pid obtain p where p: "find (\<lambda>p. pm_id p = pid \<and> pm_active p) (payment_methods (committed s)) = Some p"
      by (auto simp: payment_ok_def)
    from nf pr have f1: "\<not> fails (Suc (opcount s))" and f2: "\<not> fails (Suc (Suc (opcount s)))" by simp_all
    have vp: "validate_payment fails (od_paymentMethodId od) (s\<lparr>opcount := Suc (opcount s)\<rparr>)
                     = (Inr (Some p), s\<lparr>opcount := Suc (Suc (opcount s))\<rparr>)"
      using pid p f1
      by (simp add: validate_payment_def PaymentMethod_findOne_def bnd_def tick_def ret_def view_False)
    have b: "begin_transaction fails (s\<lparr>opcount := Suc (Suc (opcount s))\<rparr>) = (Inr (), tx_start od s)"
      using f2 pr by (simp add: begin_transaction_def bnd_def tick_def tx_start_def)
    show ?thesis
      using ne len by (simp add: createOrder_def Let_def bnd_def m vp b)
  qed
qed

lemma Order_create_ok:
  "\<not> fails (opcount s) \<Longrightarrow> pending s = Some t \<Longrightarrow>
   Order_create fails row s =
     (Inr (next_order_id t),
      s\<lparr>pending := Some (t\<lparr>orders := orders t @ [row\<lparr>o_id := next_order_id t\<rparr>]\<rparr>),
        opcount := Suc (opcount s)\<rparr>)"
  by (simp add: Order_create_def bnd_def tick_def view_def modify_def Let_def)

lemma OrderItem_create_ok:
  "\<not> fails (opcount s) \<Longrightarrow> pending s = Some t \<Longrightarrow>
   OrderItem_create fails row s =
     (Inr (), s\<lparr>pending := Some (t\<lparr>order_items := order_items t @ [row]\<rparr>), opcount := Suc (opcount s)\<rparr>)"
  by (simp add: OrderItem_create_def bnd_def tick_def modify_def)

lemma create_items_ok:
  "(\<forall>k. opcount s \<le> k \<and> k < opcount s + length ls \<longrightarrow> \<not> fails k) \<Longrightarrow> pending s = Some t \<Longrightarrow>
   create_items fails oid ls s =
     (Inr (), s\<lparr>pending := Some (t\<lparr>order_items := order_items t @ map (item_row oid) ls\<rparr>),
               opcount := opcount s + length ls\<rparr>)"
proof (induction ls arbitrary: s t)
  case Nil
  then show ?case by (simp add: ret_def)
next
  case (Cons item rest)
  let ?s1 = "s\<lparr>pending := Some (t\<lparr>order_items := order_items t @ [item_row oid item]\<rparr>),
               opcount := Suc (opcount s)\<rparr>"
  from Cons.prems(1) have f0: "\<not> fails (opcount s)" by simp
  have step: "OrderItem_create fails (item_row oid item) s = (Inr (), ?s1)"
    using f0 Cons.prems(2) by (rule OrderItem_create_ok)
  have nf1: "\<forall>k. opcount ?s1 \<le> k \<and> k < opcount ?s1 + length rest \<longrightarrow> \<not> fails k"
    using Cons.prems(1) by simp
  have p1: "pending ?s1 = Some (t\<lparr>order_items := order_items t @ [item_row oid item]\<rparr>)" by simp
  from Cons.IH [OF nf1 p1] step show ?case
    by (simp add: bnd_def item_row_def [symmetric])
qed

lemma create_items_fail:
  "opcount s \<le> k0 \<Longrightarrow> k0 < opcount s + length ls \<Longrightarrow> fails k0 \<Longrightarrow>
   (\<forall>k. opcount s \<le> k \<and> k < k0 \<longrightarrow> \<not> fails k) \<Longrightarrow> pending s \<noteq> None \<Longrightarrow>
   \<exists>s'. create_items fails oid ls s = (Inl (DbError k0), s') \<and> opcount s' = Suc k0
        \<and> committed s' = committed s \<and> pending s' \<noteq> None"
proof (induction ls arbitrary: s)
  case Nil
  then show ?case by simp
next
  case (Cons item rest)
  from Cons.prems(5) obtain t where pt: "pending s = Some t" by auto
  show ?case
  proof (cases "k0 = opcount s")
    case True
    with Cons.prems(3) pt show ?thesis
      by (simp add: bnd_def OrderItem_create_def tick_def)
  next
    case False
    with Cons.prems(1) have lt: "opcount s < k0" by simp
    with Cons.prems(4) have f0: "\<not> fails (opcount s)" by simp
    let ?s1 = "s\<lparr>pending := Some (t\<lparr>order_items := order_items t @ [item_row oid item]\<rparr>),
               opcount := Suc (opcount s)\<rparr>"
    have step: "OrderItem_create fails (item_row oid item) s = (Inr (), ?s1)"
      using f0 pt by (rule OrderItem_create_ok)
    have a1: "opcount ?s1 \<le> k0" using lt by simp
    have a2: "k0 < opcount ?s1 + length rest" using Cons.prems(2) by simp
    have a4: "\<forall>k. opcount ?s1 \<le> k \<and> k < k0 \<longrightarrow> \<not> fails k" using Cons.prems(4) by simp
    have a5: "pending ?s1 \<noteq> None" by simp
    from Cons.IH [OF a1 a2 Cons.prems(3) a4 a5] step show ?thesis
      by (simp add: bnd_def item_row_def [symmetric])
  qed
qed

lemma commit_fail:
  "fails (opcount s) \<Longrightarrow> commit fails s = (Inl (DbError (opcount s)), s\<lparr>opcount := Suc (opcount s)\<rparr>)"
  by (simp add: commit_def bnd_def tick_def)

lemma commit_ok:
  "\<not> fails (opcount s) \<Longrightarrow> pending s = Some t \<Longrightarrow>
   commit fails s = (Inr (), s\<lparr>committed := t, pending := None, opcount := Suc (opcount s)\<rparr>)"
  by (simp add: commit_def bnd_def tick_def)

lemma persist_order_ok:
  assumes pt: "pending s = Some t"
    and nf: "\<forall>k. opcount s \<le> k \<and> k < opcount s + length (od_items od) + 2 \<longrightarrow> \<not> fails k"
  shows "persist_order fails od a s =
     (Inr \<lparr>resp_success = True, resp_orderNumber = orderNumber a\<rparr>,
      \<lparr>committed = t\<lparr>orders := orders t @ [new_order_row od a (next_order_id t)],
                      order_items := order_items t @ map (item_row (next_order_id t)) (od_items od)\<rparr>,
       pending = None, opcount = opcount s + length (od_items od) + 2\<rparr>)"
proof -
  let ?t1 = "t\<lparr>orders := orders t @ [new_order_row od a (next_order_id t)]\<rparr>"
  let ?s1 = "s\<lparr>pending := Some ?t1, opcount := Suc (opcount s)\<rparr>"
  from nf have f0: "\<not> fails (opcount s)" by simp
  have r: "(new_order_row od a 0)\<lparr>o_id := next_order_id t\<rparr> = new_order_row od a (next_order_id t)"
    by (simp add: new_order_row_def)
  have oc: "Order_create fails (new_order_row od a 0) s = (Inr (next_order_id t), ?s1)"
    using f0 pt by (simp add: Order_create_ok r)
  let ?t2 = "?t1\<lparr>order_items := order_items ?t1 @ map (item_row (next_order_id t)) (od_items od)\<rparr>"
  let ?s2 = "?s1\<lparr>pending := Some ?t2, opcount := opcount ?s1 + length (od_items od)\<rparr>"
  have nf1: "\<forall>k. opcount ?s1 \<le> k \<and> k < opcount ?s1 + length (od_items od) \<longrightarrow> \<not> fails k"
    using nf by simp
  have p1: "pending ?s1 = Some ?t1" by simp
  have ci: "create_items fails (next_order_id t) (od_items od) ?s1 = (Inr (), ?s2)"
    using create_items_ok [OF nf1 p1] .
  from nf have fc: "\<not> fails (Suc (opcount s + length (od_items od)))" by simp
  show ?thesis
    unfolding persist_order_def
    using fc by (simp add: bnd_def oc ci commit_ok ret_def)
qed

lemma persist_order_fail:
  assumes pn: "pending s \<noteq> None"
    and lo: "opcount s \<le> k0" and hi: "k0 < opcount s + length (od_items od) + 2"
    and fk: "fails k0" and nf: "\<forall>k. opcount s \<le> k \<and> k < k0 \<longrightarrow> \<not> fails k"
  shows "\<exists>s'. persist_order fails od a s = (Inl (DbError k0), s') \<and> opcount s' = Suc k0
        \<and> committed s' = committed s \<and> pending s' \<noteq> None"
proof -
  from pn obtain t where pt: "pending s = Some t" by auto
  show ?thesis
  proof (cases "k0 = opcount s")
    case True
    with fk pt show ?thesis
      by (simp add: persist_order_def bnd_def Order_create_def tick_def)
  next
    case False
    with lo have lt: "opcount s < k0" by simp
    with nf have f0: "\<not> fails (opcount s)" by simp
    let ?t1 = "t\<lparr>orders := orders t @ [(new_order_row od a 0)\<lparr>o_id := next_order_id t\<rparr>]\<rparr>"
    let ?s1 = "s\<lparr>pending := Some ?t1, opcount := Suc (opcount s)\<rparr>"
    have oc: "Order_create fails (new_order_row od a 0) s = (Inr (next_order_id t), ?s1)"
      using f0 pt by (rule Order_create_ok)
    show ?thesis
    proof (cases "k0 < opcount ?s1 + length (od_items od)")
      case True
      have a1: "opcount ?s1 \<le> k0" using lt by simp
      have a4: "\<forall>k. opcount ?s1 \<le> k \<and> k < k0 \<longrightarrow> \<not> fails k" using nf by simp
      have a5: "pending ?s1 \<noteq> None" by simp
      from create_items_fail [OF a1 True fk a4 a5, of "next_order_id t"]
      obtain s' where ci: "create_items fails (next_order_id t) (od_items od) ?s1 = (Inl (DbError k0), s')"
        and o: "opcount s' = Suc k0" and c: "committed s' = committed ?s1" and p: "pending s' \<noteq> None"
        by blast
      from oc ci o c p show ?thesis
        by (simp add: persist_order_def bnd_def)
    next
      case nlt: False
      with hi have k0: "k0 = opcount s + length (od_items od) + 1" by simp
      let ?t2 = "?t1\<lparr>order_items := order_items ?t1 @ map (item_row (next_order_id t)) (od_items od)\<rparr>"
      let ?s2 = "?s1\<lparr>pending := Some ?t2, opcount := opcount ?s1 + length (od_items od)\<rparr>"
      have nf1: "\<forall>k. opcount ?s1 \<le> k \<and> k < opcount ?s1 + length (od_items od) \<longrightarrow> \<not> fails k"
        using nf k0 by simp
      have p1: "pending ?s1 = Some ?t1" by simp
      have ci: "create_items fails (next_order_id t) (od_items od) ?s1 = (Inr (), ?s2)"
        using create_items_ok [OF nf1 p1] .
      have fc: "fails (Suc (opcount s + length (od_items od)))" using fk k0 by simp
      have k0': "Suc (opcount s + length (od_items od)) = k0" using k0 by simp
      show ?thesis
        unfolding persist_order_def
        using fc by (simp add: bnd_def oc ci commit_fail k0')
    qed
  qed
qed


lemma settings_only_ret: "settings_only (ret x)" by (simp add: settings_only_def ret_def)
lemma settings_only_throw: "settings_only (throw x)" by (simp add: settings_only_def throw_def)
lemma settings_only_tick: "settings_only (tick fails)"
  by (auto simp: settings_only_def tick_def split: if_splits)

lemma settings_only_bnd: "settings_only m \<Longrightarrow> (\<And>x. settings_only (f x)) \<Longrightarrow> settings_only (bnd m f)"
proof -
  assume m: "settings_only m" and f: "\<And>x. settings_only (f x)"
  show ?thesis
    unfolding settings_only_def
  proof (intro allI impI)
    fix s r s' t
    assume run: "bnd m f s = (r, s')" and pt: "pending s = Some t"
    obtain r1 s1 where m1: "m s = (r1, s1)" by (cases "m s")
    from m m1 pt obtain t1 where p1: "pending s1 = Some t1" and o1: "orders t1 = orders t"
      and i1: "order_items t1 = order_items t"
      unfolding settings_only_def by blast
    show "\<exists>t'. pending s' = Some t' \<and> orders t' = orders t \<and> order_items t' = order_items t"
    proof (cases r1)
      case (Inl err)
      with run m1 have "s' = s1" by (simp add: bnd_def)
      with p1 o1 i1 show ?thesis by simp
    next
      case (Inr x)
      with run m1 have "f x s1 = (r, s')" by (simp add: bnd_def)
      with f [of x] p1 obtain t2 where "pending s' = Some t2" "orders t2 = orders t1"
        "order_items t2 = order_items t1"
        unfolding settings_only_def by blast
      with o1 i1 show ?thesis by simp
    qed
  qed
qed

lemma settings_only_try_catch:
  "settings_only m \<Longrightarrow> (\<And>x. settings_only (h x)) \<Longrightarrow> settings_only (try_catch m h)"
proof -
  assume m: "settings_only m" and h: "\<And>x. settings_only (h x)"
  show ?thesis
    unfolding settings_only_def
  proof (intro allI impI)
    fix s r s' t
    assume run: "try_catch m h s = (r, s')" and pt: "pending s = Some t"
    obtain r1 s1 where m1: "m s = (r1, s1)" by (cases "m s")
    from m m1 pt obtain t1 where p1: "pending s1 = Some t1" and o1: "orders t1 = orders t"
      and i1: "order_items t1 = order_items t"
      unfolding settings_only_def by blast
    show "\<exists>t'. pending s' = Some t' \<and> orders t' = orders t \<and> order_items t' = order_items t"
    proof (cases r1)
      case (Inr x)
      with run m1 have "s' = s1" by (simp add: try_catch_def)
      with p1 o1 i1 show ?thesis by simp
    next
      case (Inl err)
      with run m1 have "h err s1 = (r, s')" by (simp add: try_catch_def)
      with h [of err] p1 obtain t2 where "pending s' = Some t2" "orders t2 = orders t1"
        "order_items t2 = order_items t1"
        unfolding settings_only_def by blast
      with o1 i1 show ?thesis by simp
    qed
  qed
qed

lemma settings_only_read: "settings_only (\<lambda>s. (Inr (g s), s))"
  by (simp add: settings_only_def)

lemma settings_only_write:
  "settings_only (\<lambda>s. (Inr x, modify True (\<lambda>t. t\<lparr>settings := g t\<rparr>) s))"
  by (auto simp: settings_only_def modify_def)

lemma settings_only_Settings_findOne: "settings_only (Settings_findOne fails True key)"
  unfolding Settings_findOne_def by (intro settings_only_bnd settings_only_tick settings_only_read)

lemma settings_only_setting_update: "settings_only (setting_update fails True key v)"
  unfolding setting_update_def by (intro settings_only_bnd settings_only_tick settings_only_write)

lemma settings_only_Settings_create: "settings_only (Settings_create fails True key v)"
  unfolding Settings_create_def by (intro settings_only_bnd settings_only_tick settings_only_write)

lemmas settings_only_basic = settings_only_ret settings_only_throw settings_only_tick
  settings_only_bnd settings_only_try_catch settings_only_Settings_findOne
  settings_only_setting_update settings_only_Settings_create

lemma settings_only_next_sequence: "settings_only (next_sequence fails True ot today ss ds)"
  unfolding next_sequence_def Let_def
  by (auto split: option.splits sum.splits intro!: settings_only_basic)

lemma settings_only_generateOrderNumber_try:
  "settings_only (generateOrderNumber_try fails e ot sid True)"
  unfolding generateOrderNumber_try_def Let_def
  by (intro settings_only_basic settings_only_next_sequence)

text \<open>What the allocator leaves behind inside an open transaction.\<close>

lemma generateOrderNumber_in_tx:
  assumes g: "generateOrderNumber fails e ot sid True s = (a, s1)" and pt: "pending s = Some t"
  shows "committed s1 = committed s
       \<and> (\<exists>t1. pending s1 = Some t1 \<and> orders t1 = orders t \<and> order_items t1 = order_items t)"
proof -
  obtain r s' where tr: "generateOrderNumber_try fails e ot sid True s = (r, s')"
    by (cases "generateOrderNumber_try fails e ot sid True s")
  from g tr have s1: "s1 = s'" by (auto simp: generateOrderNumber_def split: sum.splits)
  from tr pt tx_safe_generateOrderNumber_try [of fails e ot sid]
  have c: "committed s' = committed s" by (auto simp: tx_safe_def)
  from tr pt settings_only_generateOrderNumber_try [of fails e ot sid]
  have "\<exists>t1. pending s' = Some t1 \<and> orders t1 = orders t \<and> order_items t1 = order_items t"
    unfolding settings_only_def by blast
  with c s1 show ?thesis by simp
qed

lemma next_order_id_cong: "orders t1 = orders t \<Longrightarrow> next_order_id t1 = next_order_id t"
  by (simp add: next_order_id_def)

lemma rollback_run:
  "rollback fails s =
     (if fails (opcount s) then (Inl (DbError (opcount s)), s\<lparr>opcount := Suc (opcount s)\<rparr>)
      else (Inr (), s\<lparr>pending := None, opcount := Suc (opcount s)\<rparr>))"
  by (simp add: rollback_def bnd_def tick_def)

text \<open>A failure of the order insert, of a line insert or of the commit.\<close>

lemma createOrder_persist_failure:
  assumes v: "validation_ok od s"
    and nf: "\<forall>k. opcount s \<le> k \<and> k < opcount s + payment_reads od + 2 \<longrightarrow> \<not> fails k"
    and lo: "opcount (snd (alloc_run fails e od s)) \<le> k0"
    and hi: "k0 < opcount (snd (alloc_run fails e od s)) + length (od_items od) + 2"
    and fk: "fails k0"
    and nfk: "\<forall>k. opcount (snd (alloc_run fails e od s)) \<le> k \<and> k < k0 \<longrightarrow> \<not> fails k"
  shows "fst (createOrder fails e od s) = Inl (DbError (if fails (Suc k0) then Suc k0 else k0))
       \<and> committed (snd (createOrder fails e od s)) = committed s
       \<and> opcount (snd (createOrder fails e od s)) = k0 + 2
       \<and> (\<not> fails (Suc k0) \<longrightarrow> pending (snd (createOrder fails e od s)) = None)"
proof -
  obtain a s1 where g: "alloc_run fails e od s = (a, s1)" by (cases "alloc_run fails e od s")
  then have g': "generateOrderNumber fails e (od_orderType od) (od_storeId od) True (tx_start od s) = (a, s1)"
    by (simp add: alloc_run_def)
  have pt: "pending (tx_start od s) = Some (committed s)" by (simp add: tx_start_def)
  from generateOrderNumber_in_tx [OF g' pt]
  have c1: "committed s1 = committed (tx_start od s)" and p1: "pending s1 \<noteq> None" by auto
  have c0: "committed (tx_start od s) = committed s" by (simp add: tx_start_def)
  from lo hi nfk g have lo': "opcount s1 \<le> k0" and hi': "k0 < opcount s1 + length (od_items od) + 2"
    and nfk': "\<forall>k. opcount s1 \<le> k \<and> k < k0 \<longrightarrow> \<not> fails k" by simp_all
  from persist_order_fail [OF p1 lo' hi' fk nfk', of a]
  obtain s2 where p: "persist_order fails od a s1 = (Inl (DbError k0), s2)"
    and o2: "opcount s2 = Suc k0" and c2: "committed s2 = committed s1" and p2: "pending s2 \<noteq> None"
    by blast
  have it: "in_transaction fails e od (tx_start od s) = (Inl (DbError k0), s2)"
    by (simp add: in_transaction_persist g' p)
  have co: "createOrder fails e od s =
              bnd (rollback fails) (\<lambda>_. throw (DbError k0)) s2"
    by (simp add: createOrder_after_validation [OF v nf] try_catch_def it)
  show ?thesis
    using o2 c2 c1 c0 p2
    by (simp add: co bnd_def rollback_run throw_def)
qed

text \<open>Failures inside the allocation only.\<close>

lemma createOrder_commits:
  assumes v: "validation_ok od s"
    and nf: "\<forall>k. opcount s \<le> k \<and> k < opcount s + payment_reads od + 2 \<longrightarrow> \<not> fails k"
    and nfp: "\<forall>k. opcount (snd (alloc_run fails e od s)) \<le> k
               \<and> k < opcount (snd (alloc_run fails e od s)) + length (od_items od) + 2 \<longrightarrow> \<not> fails k"
  shows "fst (createOrder fails e od s)
           = Inr \<lparr>resp_success = True, resp_orderNumber = orderNumber (fst (alloc_run fails e od s))\<rparr>
       \<and> orders (committed (snd (createOrder fails e od s)))
           = orders (committed s)
             @ [new_order_row od (fst (alloc_run fails e od s)) (next_order_id (committed s))]
       \<and> order_items (committed (snd (createOrder fails e od s)))
           = order_items (committed s) @ map (item_row (next_order_id (committed s))) (od_items od)
       \<and> pending (snd (createOrder fails e od s)) = None"
proof -
  obtain a s1 where g: "alloc_run fails e od s = (a, s1)" by (cases "alloc_run fails e od s")
  then have g': "generateOrderNumber fails e (od_orderType od) (od_storeId od) True (tx_start od s) = (a, s1)"
    by (simp add: alloc_run_def)
  have pt: "pending (tx_start od s) = Some (committed s)" by (simp add: tx_start_def)
  from generateOrderNumber_in_tx [OF g' pt]
  obtain t1 where p1: "pending s1 = Some t1" and o1: "orders t1 = orders (committed s)"
    and i1: "order_items t1 = order_items (committed s)" by auto
  from nfp g have nfp': "\<forall>k. opcount s1 \<le> k \<and> k < opcount s1 + length (od_items od) + 2 \<longrightarrow> \<not> fails k"
    by simp
  note p = persist_order_ok [OF p1 nfp', of a]
  have it: "in_transaction fails e od (tx_start od s) =
     (Inr \<lparr>resp_success = True, resp_orderNumber = orderNumber a\<rparr>,
      \<lparr>committed = t1\<lparr>orders := orders t1 @ [new_order_row od a (next_order_id t1)],
                      order_items := order_items t1 @ map (item_row (next_order_id t1)) (od_items od)\<rparr>,
       pending = None, opcount = opcount s1 + length (od_items od) + 2\<rparr>)"
    by (simp add: in_transaction_persist g' p)
  show ?thesis
    by (simp add: createOrder_after_validation [OF v nf] try_catch_def it g o1 i1
        next_order_id_cong [OF o1])
qed

text \<open>One failing operation, among the three reads of the allocator.\<close>

lemma alloc_run_read_fails:
  assumes i: "i < 3" and f: "\<forall>k. fails k = (k = opcount s + payment_reads od + 2 + i)"
  shows "alloc_run fails e od s
           = (fallback e, (tx_start od s)\<lparr>opcount := opcount s + payment_reads od + 2 + i + 1\<rparr>)"
proof -
  let ?a = "opcount s + payment_reads od + 2"
  have oa: "opcount (tx_start od s) = ?a" by (simp add: tx_start_def)
  from i have "i = 0 \<or> i = 1 \<or> i = 2" by auto
  then show ?thesis
  proof (elim disjE)
    assume "i = 0"
    with f show ?thesis
      by (simp add: alloc_run_def generateOrderNumber_def generateOrderNumber_try_def Let_def bnd_def
          Settings_findOne_fail Settings_findOne_ok oa)
  next
    assume "i = 1"
    with f show ?thesis
      by (simp add: alloc_run_def generateOrderNumber_def generateOrderNumber_try_def Let_def bnd_def
          Settings_findOne_fail Settings_findOne_ok oa)
  next
    assume "i = 2"
    with f show ?thesis
      by (simp add: alloc_run_def generateOrderNumber_def generateOrderNumber_try_def Let_def bnd_def
          Settings_findOne_fail Settings_findOne_ok oa)
  qed
qed

lemma createOrder_read_error:
  assumes v: "validation_ok od s" and i: "i < 3"
    and f: "\<forall>k. fails k = (k = opcount s + payment_reads od + 2 + i)"
  shows "fst (createOrder fails e od s)
           = Inr \<lparr>resp_success = True, resp_orderNumber = orderNumber (fallback e)\<rparr>
       \<and> committed (snd (createOrder fails e od s))
           = (committed s)\<lparr>orders := orders (committed s)
                                @ [new_order_row od (fallback e) (next_order_id (committed s))],
                            order_items := order_items (committed s)
                                @ map (item_row (next_order_id (committed s))) (od_items od)\<rparr>
       \<and> pending (snd (createOrder fails e od s)) = None"
proof -
  define s1 where "s1 = (tx_start od s)\<lparr>opcount := opcount s + payment_reads od + 2 + i + 1\<rparr>"
  have g': "generateOrderNumber fails e (od_orderType od) (od_storeId od) True (tx_start od s)
           = (fallback e, s1)"
    using alloc_run_read_fails [OF i f, of e] by (simp add: alloc_run_def s1_def)
  have nf: "\<forall>k. opcount s \<le> k \<and> k < opcount s + payment_reads od + 2 \<longrightarrow> \<not> fails k"
    using f by simp
  have p1: "pending s1 = Some (committed s)" by (simp add: tx_start_def s1_def)
  have o1: "opcount s1 = opcount s + payment_reads od + 2 + i + 1" by (simp add: s1_def)
  have nfp: "\<forall>k. opcount s1 \<le> k \<and> k < opcount s1 + length (od_items od) + 2 \<longrightarrow> \<not> fails k"
    using f o1 by simp
  note p = persist_order_ok [OF p1 nfp, of "fallback e"]
  show ?thesis
    by (simp add: createOrder_after_validation [OF v nf] try_catch_def in_transaction_persist g' p)
qed

section \<open>Store errors during the allocation\<close>

text \<open>
  Claim C1, the claim as stated fails.  The first read of the allocator inside the
  transaction of \<open>createOrder\<close> (store operation 2) fails: the body of the allocator
  throws, yet \<open>createOrder\<close> reports success with the fallback number, and the
  committed order row carries that number and the daily sequence 0.
\<close>

theorem allocation_read_error_commits_order:
  "fst (generateOrderNumber_try (\<lambda>k. k = 2) clock_jan2 0 1 True
          \<lparr>committed = tables_jan1, pending = Some tables_jan1, opcount = 2\<rparr>) = Inl (DbError 2)
   \<and> fst (createOrder (\<lambda>k. k = 2) clock_jan2 order_one session_jan1)
     = Inr \<lparr>resp_success = True, resp_orderNumber = ''OF08707123''\<rparr>
   \<and> map o_order_number (orders (committed (snd (createOrder (\<lambda>k. k = 2) clock_jan2 order_one session_jan1))))
       = [''OF08707123'']
   \<and> map o_daily_sequence (orders (committed (snd (createOrder (\<lambda>k. k = 2) clock_jan2 order_one session_jan1))))
       = [0]"
  by (simp add: createOrder_def in_transaction_def io_eval alloc_eval sample_eval Let_def)

text \<open>
  Claim C1, amended.  Whenever one of the three reads of \<open>generateOrderNumber\<close>
  fails, with or without a transaction, the function does not throw: it returns the
  fallback number, \<open>OF\<close> and the last eight digits of the millisecond clock, with
  daily sequence 0, and has changed nothing but the count of operations issued.  In
  \<open>createOrder\<close>, for an order that passes validation, when one of these reads
  is the only store operation that fails, the transaction is not aborted: the allocator
  returns the fallback inside the transaction, \<open>createOrder\<close> returns success
  with the fallback number, and what is committed is the tables as they were plus the
  order row with the fallback number and daily sequence 0 and one row per line.
\<close>

theorem read_error_returns_fallback:
  "(fails (opcount s) \<or> fails (Suc (opcount s)) \<or> fails (Suc (Suc (opcount s)))
      \<longrightarrow> generateOrderNumber fails e ot sid tx s
            = (fallback e,
               s\<lparr>opcount := (if fails (opcount s) then opcount s + 1
                              else if fails (Suc (opcount s)) then opcount s + 2 else opcount s + 3)\<rparr>))
   \<and> (validation_ok od s \<and> i < 3 \<and> (\<forall>k. fails k = (k = opcount s + payment_reads od + 2 + i))
      \<longrightarrow> alloc_run fails e od s
            = (fallback e, (tx_start od s)\<lparr>opcount := opcount s + payment_reads od + 2 + i + 1\<rparr>)
        \<and> fst (createOrder fails e od s)
            = Inr \<lparr>resp_success = True, resp_orderNumber = orderNumber (fallback e)\<rparr>
        \<and> committed (snd (createOrder fails e od s))
            = (committed s)\<lparr>orders := orders (committed s)
                                 @ [new_order_row od (fallback e) (next_order_id (committed s))],
                             order_items := order_items (committed s)
                                 @ map (item_row (next_order_id (committed s))) (od_items od)\<rparr>
        \<and> pending (snd (createOrder fails e od s)) = None)"
proof -
  have p1: "fails (opcount s) \<or> fails (Suc (opcount s)) \<or> fails (Suc (Suc (opcount s)))
      \<longrightarrow> generateOrderNumber fails e ot sid tx s
            = (fallback e,
               s\<lparr>opcount := (if fails (opcount s) then opcount s + 1
                              else if fails (Suc (opcount s)) then opcount s + 2 else opcount s + 3)\<rparr>)"
    using generateOrderNumber_read_fails [of fails s e ot sid tx] by blast
  have p2: "alloc_run fails e od s
            = (fallback e, (tx_start od s)\<lparr>opcount := opcount s + payment_reads od + 2 + i + 1\<rparr>)
        \<and> fst (createOrder fails e od s)
            = Inr \<lparr>resp_success = True, resp_orderNumber = orderNumber (fallback e)\<rparr>
        \<and> committed (snd (createOrder fails e od s))
            = (committed s)\<lparr>orders := orders (committed s)
                                 @ [new_order_row od (fallback e) (next_order_id (committed s))],
                             order_items := order_items (committed s)
                                 @ map (item_row (next_order_id (committed s))) (od_items od)\<rparr>
        \<and> pending (snd (createOrder fails e od s)) = None"
    if a: "validation_ok od s \<and> i < 3 \<and> (\<forall>k. fails k = (k = opcount s + payment_reads od + 2 + i))"
  proof -
    from a have v: "validation_ok od s" and i: "i < 3"
      and f: "\<forall>k. fails k = (k = opcount s + payment_reads od + 2 + i)" by simp_all
    from alloc_run_read_fails [OF i f, of e] createOrder_read_error [OF v i f, of e]
    show ?thesis by simp
  qed
  from p1 p2 show ?thesis by blast
qed

theorem read_error_returns_fallback_witness:
  "fst (generateOrderNumber (\<lambda>k. k = 3) clock_jan2 0 1 True
          \<lparr>committed = tables_jan1, pending = Some tables_jan1, opcount = 2\<rparr>)
     = \<lparr>orderNumber = ''OF08707123'', dailySequence = 0\<rparr>
   \<and> validation_ok order_one session_jan1
   \<and> fst (createOrder (\<lambda>k. k = 3) clock_jan2 order_one session_jan1)
     = Inr \<lparr>resp_success = True, resp_orderNumber = ''OF08707123''\<rparr>
   \<and> map o_daily_sequence (orders (committed (snd (createOrder (\<lambda>k. k = 3) clock_jan2 order_one session_jan1))))
     = [0]
   \<and> map oi_meal_id (order_items (committed (snd (createOrder (\<lambda>k. k = 3) clock_jan2 order_one session_jan1))))
     = [5]"
proof -
  let ?s = "\<lparr>committed = tables_jan1, pending = Some tables_jan1, opcount = 2\<rparr>"
  have h: "(\<lambda>k. k = 3) (opcount ?s) \<or> (\<lambda>k. k = 3) (Suc (opcount ?s))
           \<or> (\<lambda>k. k = (3::nat)) (Suc (Suc (opcount ?s)))"
    by simp
  have pr: "payment_reads order_one = 0" by (simp add: payment_reads_def order_one_def)
  have v: "validation_ok order_one session_jan1"
    by (simp add: validation_ok_def payment_ok_def sample_eval)
  have f: "\<forall>k. (\<lambda>k. k = (3::nat)) k = (k = opcount session_jan1 + payment_reads order_one + 2 + 1)"
    by (simp add: pr session_jan1_def eval_nat_numeral)
  note t1 = read_error_returns_fallback [of "\<lambda>k. k = 3" ?s clock_jan2 0 1 True order_one 1]
  note t2 = read_error_returns_fallback [of "\<lambda>k. k = 3" session_jan1 clock_jan2 0 1 True order_one 1]
  from t1 h have c1: "fst (generateOrderNumber (\<lambda>k. k = 3) clock_jan2 0 1 True ?s) = fallback clock_jan2"
    by simp
  from t2 v f
  have c2: "fst (createOrder (\<lambda>k. k = 3) clock_jan2 order_one session_jan1)
            = Inr \<lparr>resp_success = True, resp_orderNumber = orderNumber (fallback clock_jan2)\<rparr>"
    and c3: "committed (snd (createOrder (\<lambda>k. k = 3) clock_jan2 order_one session_jan1))
            = (committed session_jan1)\<lparr>orders := orders (committed session_jan1)
                 @ [new_order_row order_one (fallback clock_jan2) (next_order_id (committed session_jan1))],
               order_items := order_items (committed session_jan1)
                 @ map (item_row (next_order_id (committed session_jan1))) (od_items order_one)\<rparr>"
    by simp_all
  have c4: "map o_daily_sequence (orders (committed (snd (createOrder (\<lambda>k. k = 3) clock_jan2 order_one session_jan1))))
     = [0]"
    unfolding c3 by (simp add: sample_eval new_order_row_def)
  have c5: "map oi_meal_id (order_items (committed (snd (createOrder (\<lambda>k. k = 3) clock_jan2 order_one session_jan1))))
     = [5]"
    unfolding c3 by (simp add: sample_eval item_row_def)
  from c1 v c2 c4 c5 show ?thesis by (simp add: fallback_jan2)
qed

section \<open>Atomicity of createOrder\<close>

text \<open>
  Claim C5, the claim as stated fails.  On the first order of a new day the write of
  the counter row by the allocator (store operation 6) fails.  The allocator's body
  throws, the transaction is not rolled back: \<open>createOrder\<close> reports success, and
  an order row with daily sequence 0 and its line are committed.
\<close>

theorem allocation_write_error_commits_order:
  "fst (generateOrderNumber_try (\<lambda>k. k = 6) clock_jan2 0 1 True
          \<lparr>committed = tables_jan1, pending = Some tables_jan1, opcount = 2\<rparr>) = Inl (DbError 6)
   \<and> fst (createOrder (\<lambda>k. k = 6) clock_jan2 order_one session_jan1)
     = Inr \<lparr>resp_success = True, resp_orderNumber = ''OF08707123''\<rparr>
   \<and> map o_daily_sequence (orders (committed (snd (createOrder (\<lambda>k. k = 6) clock_jan2 order_one session_jan1))))
       = [0]
   \<and> map oi_meal_id (order_items (committed (snd (createOrder (\<lambda>k. k = 6) clock_jan2 order_one session_jan1))))
       = [5]"
  by (simp add: createOrder_def in_transaction_def io_eval alloc_eval sample_eval Let_def)

text \<open>
  Claim C5, amended.  An order without lines is refused before the store is touched; an
  order some of whose meals are missing or inactive is refused after the catalogue read,
  with no transaction opened and nothing written.  Whenever \<open>createOrder\<close>
  throws, the committed tables are those it started from.  For an order that passes
  validation, with the validation reads and the opening of the transaction succeeding:
  if the order insert, a line insert or the commit is the first operation after the
  allocation to fail, \<open>createOrder\<close> throws that store error (the error of the
  rollback when the rollback fails too), the rollback has been issued and, when it
  succeeds, no transaction is left open, and the committed tables are unchanged: no
  order row, no line and no counter update of the call remains.  A store error inside
  the allocation is not such a failure: when every failing operation is one of the
  allocator's, \<open>createOrder\<close> returns success with the number the allocator
  returned and commits the order row with that number and sequence and one row per
  line.  A commit that fails is taken to commit nothing.
\<close>

theorem createOrder_atomic:
  "(od_items od = [] \<longrightarrow> createOrder fails e od s = (Inl EmptyItems, s))
   \<and> (od_items od \<noteq> [] \<and> \<not> fails (opcount s)
        \<and> length (filter (\<lambda>m. meal_id m \<in> set (map line_mealId (od_items od)) \<and> meal_active m)
                    (meals (committed s))) \<noteq> length (od_items od)
      \<longrightarrow> createOrder fails e od s = (Inl PartialItems, s\<lparr>opcount := Suc (opcount s)\<rparr>))
   \<and> (fst (createOrder fails e od s) = Inl err
      \<longrightarrow> committed (snd (createOrder fails e od s)) = committed s)
   \<and> (validation_ok od s
        \<and> (\<forall>k. opcount s \<le> k \<and> k < opcount s + payment_reads od + 2 \<longrightarrow> \<not> fails k)
        \<and> opcount (snd (alloc_run fails e od s)) \<le> k0
        \<and> k0 < opcount (snd (alloc_run fails e od s)) + length (od_items od) + 2
        \<and> fails k0
        \<and> (\<forall>k. opcount (snd (alloc_run fails e od s)) \<le> k \<and> k < k0 \<longrightarrow> \<not> fails k)
      \<longrightarrow> fst (createOrder fails e od s) = Inl (DbError (if fails (Suc k0) then Suc k0 else k0))
        \<and> committed (snd (createOrder fails e od s)) = committed s
        \<and> opcount (snd (createOrder fails e od s)) = k0 + 2
        \<and> (\<not> fails (Suc k0) \<longrightarrow> pending (snd (createOrder fails e od s)) = None))
   \<and> (validation_ok od s
        \<and> (\<forall>k. fails k \<longrightarrow> opcount s + payment_reads od + 2 \<le> k
                              \<and> k < opcount (snd (alloc_run fails e od s)))
      \<longrightarrow> fst (createOrder fails e od s)
            = Inr \<lparr>resp_success = True, resp_orderNumber = orderNumber (fst (alloc_run fails e od s))\<rparr>
        \<and> orders (committed (snd (createOrder fails e od s)))
            = orders (committed s)
              @ [new_order_row od (fst (alloc_run fails e od s)) (next_order_id (committed s))]
        \<and> order_items (committed (snd (createOrder fails e od s)))
            = order_items (committed s) @ map (item_row (next_order_id (committed s))) (od_items od)
        \<and> pending (snd (createOrder fails e od s)) = None)"
proof -
  have p1: "od_items od = [] \<longrightarrow> createOrder fails e od s = (Inl EmptyItems, s)"
    by (simp add: createOrder_def throw_def)
  have p2: "od_items od \<noteq> [] \<and> \<not> fails (opcount s)
        \<and> length (filter (\<lambda>m. meal_id m \<in> set (map line_mealId (od_items od)) \<and> meal_active m)
                    (meals (committed s))) \<noteq> length (od_items od)
      \<longrightarrow> createOrder fails e od s = (Inl PartialItems, s\<lparr>opcount := Suc (opcount s)\<rparr>)"
    by (simp add: createOrder_def Let_def bnd_def Meal_findAll_def tick_def throw_def view_False
        view_opcount)
  have p3: "committed (snd (createOrder fails e od s)) = committed s"
    if a: "fst (createOrder fails e od s) = Inl err"
  proof -
    from a have "createOrder fails e od s = (Inl err, snd (createOrder fails e od s))"
      by (metis prod.collapse)
    then show ?thesis by (rule createOrder_error_keeps_committed)
  qed
  have p4: "fst (createOrder fails e od s) = Inl (DbError (if fails (Suc k0) then Suc k0 else k0))
        \<and> committed (snd (createOrder fails e od s)) = committed s
        \<and> opcount (snd (createOrder fails e od s)) = k0 + 2
        \<and> (\<not> fails (Suc k0) \<longrightarrow> pending (snd (createOrder fails e od s)) = None)"
    if a: "validation_ok od s
        \<and> (\<forall>k. opcount s \<le> k \<and> k < opcount s + payment_reads od + 2 \<longrightarrow> \<not> fails k)
        \<and> opcount (snd (alloc_run fails e od s)) \<le> k0
        \<and> k0 < opcount (snd (alloc_run fails e od s)) + length (od_items od) + 2
        \<and> fails k0
        \<and> (\<forall>k. opcount (snd (alloc_run fails e od s)) \<le> k \<and> k < k0 \<longrightarrow> \<not> fails k)"
  proof -
    from a have v: "validation_ok od s"
      and nf: "\<forall>k. opcount s \<le> k \<and> k < opcount s + payment_reads od + 2 \<longrightarrow> \<not> fails k"
      and lo: "opcount (snd (alloc_run fails e od s)) \<le> k0"
      and hi: "k0 < opcount (snd (alloc_run fails e od s)) + length (od_items od) + 2"
      and fk: "fails k0"
      and nfk: "\<forall>k. opcount (snd (alloc_run fails e od s)) \<le> k \<and> k < k0 \<longrightarrow> \<not> fails k"
      by blast+
    show ?thesis by (rule createOrder_persist_failure [OF v nf lo hi fk nfk])
  qed
  have p5: "fst (createOrder fails e od s)
            = Inr \<lparr>resp_success = True, resp_orderNumber = orderNumber (fst (alloc_run fails e od s))\<rparr>
        \<and> orders (committed (snd (createOrder fails e od s)))
            = orders (committed s)
              @ [new_order_row od (fst (alloc_run fails e od s)) (next_order_id (committed s))]
        \<and> order_items (committed (snd (createOrder fails e od s)))
            = order_items (committed s) @ map (item_row (next_order_id (committed s))) (od_items od)
        \<and> pending (snd (createOrder fails e od s)) = None"
    if a: "validation_ok od s
        \<and> (\<forall>k. fails k \<longrightarrow> opcount s + payment_reads od + 2 \<le> k
                              \<and> k < opcount (snd (alloc_run fails e od s)))"
  proof -
    from a have v: "validation_ok od s"
      and w: "\<forall>k. fails k \<longrightarrow> opcount s + payment_reads od + 2 \<le> k
                              \<and> k < opcount (snd (alloc_run fails e od s))"
      by blast+
    from w have nf: "\<forall>k. opcount s \<le> k \<and> k < opcount s + payment_reads od + 2 \<longrightarrow> \<not> fails k"
      by (metis not_le)
    from w have nfp: "\<forall>k. opcount (snd (alloc_run fails e od s)) \<le> k
               \<and> k < opcount (snd (alloc_run fails e od s)) + length (od_items od) + 2 \<longrightarrow> \<not> fails k"
      by (metis not_le)
    show ?thesis by (rule createOrder_commits [OF v nf nfp])
  qed
  from p1 p2 p3 p4 p5 show ?thesis by blast
qed

theorem createOrder_atomic_witness:
  "createOrder (\<lambda>k. k = 8) clock_jan2 (order_one\<lparr>od_items := []\<rparr>) session_jan1
     = (Inl EmptyItems, session_jan1)
   \<and> createOrder (\<lambda>k. k = 8) clock_jan2
        (order_one\<lparr>od_items := [\<lparr>line_mealId = 9, line_quantity = 1, line_price = 3\<rparr>]\<rparr>) session_jan1
     = (Inl PartialItems, session_jan1\<lparr>opcount := Suc (opcount session_jan1)\<rparr>)
   \<and> validation_ok order_one session_jan1
   \<and> opcount (snd (alloc_run (\<lambda>k. k = 8) clock_jan2 order_one session_jan1)) = 7
   \<and> fst (createOrder (\<lambda>k. k = 8) clock_jan2 order_one session_jan1) = Inl (DbError 8)
   \<and> committed (snd (createOrder (\<lambda>k. k = 8) clock_jan2 order_one session_jan1)) = tables_jan1
   \<and> pending (snd (createOrder (\<lambda>k. k = 8) clock_jan2 order_one session_jan1)) = None
   \<and> alloc_run (\<lambda>k. k = 3) clock_jan2 order_one session_jan1
     = (fallback clock_jan2, \<lparr>committed = tables_jan1, pending = Some tables_jan1, opcount = 4\<rparr>)
   \<and> fst (createOrder (\<lambda>k. k = 3) clock_jan2 order_one session_jan1)
     = Inr \<lparr>resp_success = True, resp_orderNumber = ''OF08707123''\<rparr>
   \<and> length (order_items (committed (snd (createOrder (\<lambda>k. k = 3) clock_jan2 order_one session_jan1))))
     = 1"
proof -
  let ?f = "\<lambda>k::nat. k = 8"
  let ?g = "\<lambda>k::nat. k = 3"
  have h1: "od_items (order_one\<lparr>od_items := []\<rparr>) = []" by simp
  let ?od2 = "order_one\<lparr>od_items := [\<lparr>line_mealId = 9, line_quantity = 1, line_price = 3\<rparr>]\<rparr>"
  have h2: "od_items ?od2 \<noteq> [] \<and> \<not> ?f (opcount session_jan1)
        \<and> length (filter (\<lambda>m. meal_id m \<in> set (map line_mealId (od_items ?od2)) \<and> meal_active m)
                    (meals (committed session_jan1))) \<noteq> length (od_items ?od2)"
    by (simp add: sample_eval)
  have pr: "payment_reads order_one = 0" by (simp add: payment_reads_def order_one_def)
  have o0: "opcount session_jan1 = 0" by (simp add: session_jan1_def)
  have v: "validation_ok order_one session_jan1"
    by (simp add: validation_ok_def payment_ok_def sample_eval)
  have b: "opcount (snd (alloc_run ?f clock_jan2 order_one session_jan1)) = 7"
    by (simp add: alloc_run_def tx_start_def payment_reads_def io_eval alloc_eval sample_eval
        Let_def string_eval)
  have n1: "length (od_items order_one) = 1" by (simp add: order_one_def)
  have h4: "validation_ok order_one session_jan1
        \<and> (\<forall>k. opcount session_jan1 \<le> k \<and> k < opcount session_jan1 + payment_reads order_one + 2
                \<longrightarrow> \<not> ?f k)
        \<and> opcount (snd (alloc_run ?f clock_jan2 order_one session_jan1)) \<le> 8
        \<and> 8 < opcount (snd (alloc_run ?f clock_jan2 order_one session_jan1))
                + length (od_items order_one) + 2
        \<and> ?f 8
        \<and> (\<forall>k. opcount (snd (alloc_run ?f clock_jan2 order_one session_jan1)) \<le> k \<and> k < 8
                \<longrightarrow> \<not> ?f k)"
    by (simp add: v b n1 pr o0)
  have ag: "alloc_run ?g clock_jan2 order_one session_jan1
     = (fallback clock_jan2, \<lparr>committed = tables_jan1, pending = Some tables_jan1, opcount = 4\<rparr>)"
    by (simp add: alloc_run_def tx_start_def payment_reads_def io_eval alloc_eval sample_eval
        Let_def)
  have h5: "validation_ok order_one session_jan1
        \<and> (\<forall>k. ?g k \<longrightarrow> opcount session_jan1 + payment_reads order_one + 2 \<le> k
                        \<and> k < opcount (snd (alloc_run ?g clock_jan2 order_one session_jan1)))"
    by (simp add: v ag pr o0)
  note t1 = createOrder_atomic [of "order_one\<lparr>od_items := []\<rparr>" ?f clock_jan2 session_jan1]
  note t2 = createOrder_atomic [of ?od2 ?f clock_jan2 session_jan1]
  note t4 = createOrder_atomic [of order_one ?f clock_jan2 session_jan1 _ 8]
  note t5 = createOrder_atomic [of order_one ?g clock_jan2 session_jan1]
  from t1 h1 have c1: "createOrder ?f clock_jan2 (order_one\<lparr>od_items := []\<rparr>) session_jan1
     = (Inl EmptyItems, session_jan1)" by blast
  from t2 h2 have c2: "createOrder ?f clock_jan2 ?od2 session_jan1
     = (Inl PartialItems, session_jan1\<lparr>opcount := Suc (opcount session_jan1)\<rparr>)" by blast
  from t4 h4 have c4: "fst (createOrder ?f clock_jan2 order_one session_jan1)
        = Inl (DbError (if ?f (Suc 8) then Suc 8 else 8))
      \<and> committed (snd (createOrder ?f clock_jan2 order_one session_jan1)) = committed session_jan1
      \<and> (\<not> ?f (Suc 8) \<longrightarrow> pending (snd (createOrder ?f clock_jan2 order_one session_jan1)) = None)"
    by blast
  from t5 h5 have c5: "fst (createOrder ?g clock_jan2 order_one session_jan1)
        = Inr \<lparr>resp_success = True,
               resp_orderNumber = orderNumber (fst (alloc_run ?g clock_jan2 order_one session_jan1))\<rparr>
      \<and> order_items (committed (snd (createOrder ?g clock_jan2 order_one session_jan1)))
        = order_items (committed session_jan1)
          @ map (item_row (next_order_id (committed session_jan1))) (od_items order_one)"
    by blast
  have cs: "committed session_jan1 = tables_jan1" by (simp add: session_jan1_def)
  from c5 have c6: "length (order_items (committed (snd (createOrder ?g clock_jan2 order_one session_jan1)))) = 1"
    by (simp add: sample_eval)
  from c5 have c7: "fst (createOrder ?g clock_jan2 order_one session_jan1)
     = Inr \<lparr>resp_success = True, resp_orderNumber = ''OF08707123''\<rparr>"
    by (simp add: ag fallback_jan2)
  from c4 have c8: "fst (createOrder ?f clock_jan2 order_one session_jan1) = Inl (DbError 8)"
    and c9: "committed (snd (createOrder ?f clock_jan2 order_one session_jan1)) = tables_jan1"
    and c10: "pending (snd (createOrder ?f clock_jan2 order_one session_jan1)) = None"
    by (simp_all add: cs)
  from c1 c2 v b c8 c9 c10 ag c7 c6 show ?thesis by blast
qed

text \<open>
  Claim C10.  With meal ids unique in the catalogue (the primary key), an order that
  names the same meal id in two lines is never created: \<open>createOrder\<close> throws
  and leaves the committed tables unchanged, and when the catalogue read itself does
  not fail the error is the one for missing or inactive meals, because the rows found
  are fewer than the lines.
\<close>

theorem duplicate_meal_rejected:
  assumes "distinct (map meal_id (meals (committed s)))"
    and "\<not> distinct (map line_mealId (od_items od))"
  shows "(\<exists>err. fst (createOrder fails e od s) = Inl err)
       \<and> committed (snd (createOrder fails e od s)) = committed s
       \<and> (\<not> fails (opcount s)
          \<longrightarrow> createOrder fails e od s = (Inl PartialItems, s\<lparr>opcount := Suc (opcount s)\<rparr>))"
proof -
  let ?ids = "map line_mealId (od_items od)"
  have ne: "od_items od \<noteq> []" using assms(2) by auto
  have v: "view False s = committed s" by (simp add: view_def split: option.splits)
  have short: "length (filter (\<lambda>m. meal_id m \<in> set ?ids \<and> meal_active m) (meals (committed s)))
                 \<noteq> length ?ids"
    using filter_dup_short [OF assms(1) assms(2)] by simp
  have r: "createOrder fails e od s =
             (if fails (opcount s) then (Inl (DbError (opcount s)), s\<lparr>opcount := Suc (opcount s)\<rparr>)
              else (Inl PartialItems, s\<lparr>opcount := Suc (opcount s)\<rparr>))"
    using ne short
    by (simp add: createOrder_def Let_def bnd_def Meal_findAll_def tick_def throw_def v view_opcount)
  show ?thesis by (simp add: r)
qed

theorem duplicate_meal_rejected_witness:
  "createOrder (\<lambda>_. False) clock_jan2
     (order_one\<lparr>od_items := [\<lparr>line_mealId = 5, line_quantity = 1, line_price = 3\<rparr>,
                              \<lparr>line_mealId = 5, line_quantity = 2, line_price = 3\<rparr>]\<rparr>) session_jan1
   = (Inl PartialItems, session_jan1\<lparr>opcount := Suc (opcount session_jan1)\<rparr>)"
proof -
  let ?od = "order_one\<lparr>od_items := [\<lparr>line_mealId = 5, line_quantity = 1, line_price = 3\<rparr>,
                              \<lparr>line_mealId = 5, line_quantity = 2, line_price = 3\<rparr>]\<rparr>"
  have h1: "distinct (map meal_id (meals (committed session_jan1)))" by (simp add: sample_eval)
  have h2: "\<not> distinct (map line_mealId (od_items ?od))" by simp
  from duplicate_meal_rejected [OF h1 h2, of "\<lambda>_. False" clock_jan2]
  show ?thesis by simp
qed

section \<open>Dispatching the calls of a receipt\<close>


lemma dispatch_prefix: "prefix (snd (dispatch thr k cs)) cs"
proof (induction cs arbitrary: k)
  case Nil
  show ?case by simp
next
  case (Cons c cs)
  from Cons.IH [of "Suc k"] show ?case
    by (cases "dispatch thr (Suc k) cs") (auto split: option.splits)
qed

lemma dispatch_complete: "fst (dispatch thr k cs) = None \<Longrightarrow> snd (dispatch thr k cs) = cs"
proof (induction cs arbitrary: k)
  case Nil
  show ?case by simp
next
  case (Cons c cs)
  obtain r made where d: "dispatch thr (Suc k) cs = (r, made)" by (cases "dispatch thr (Suc k) cs")
  from Cons.prems d have "r = None" by (auto split: option.splits if_splits)
  with Cons.IH [of "Suc k"] d have "made = cs" by simp
  with Cons.prems d show ?case by (auto split: option.splits if_splits)
qed

lemma dispatch_guarded:
  "(\<And>i. i < length cs \<Longrightarrow> thr (k + i) \<noteq> None \<Longrightarrow> guarded (cs ! i)) \<Longrightarrow> dispatch thr k cs = (None, cs)"
proof (induction cs arbitrary: k)
  case Nil
  show ?case by simp
next
  case (Cons c cs)
  have "dispatch thr (Suc k) cs = (None, cs)"
  proof (rule Cons.IH)
    fix i assume "i < length cs" "thr (Suc k + i) \<noteq> None"
    with Cons.prems [of "Suc i"] show "guarded (cs ! i)" by simp
  qed
  moreover have "thr k \<noteq> None \<Longrightarrow> guarded c" using Cons.prems [of 0] by simp
  ultimately show ?case by (auto split: option.splits)
qed

lemma openPort_fields:
  "dll_loaded (snd (openPort cfg dev)) = dll_loaded dev"
  "call_throws (snd (openPort cfg dev)) = call_throws dev"
  "status_before (snd (openPort cfg dev)) = status_before dev"
  "status_after (snd (openPort cfg dev)) = status_after dev"
  by (simp_all add: openPort_def split: open_outcome.splits option.splits bool.splits)

lemma openPort_handle: "fst (openPort cfg dev) \<Longrightarrow> handle_open (snd (openPort cfg dev))"
  by (auto simp: openPort_def split: open_outcome.splits option.splits bool.splits if_splits)

lemma ready_fields:
  "dll_loaded (ready_device cfg dev) = dll_loaded dev"
  "call_throws (ready_device cfg dev) = call_throws dev"
  "status_before (ready_device cfg dev) = status_before dev"
  "status_after (ready_device cfg dev) = status_after dev"
  by (simp_all add: ready_device_def openPort_fields)

lemma ready_handle: "port_ready cfg dev \<Longrightarrow> handle_open (ready_device cfg dev)"
  by (auto simp: ready_device_def port_ready_def openPort_handle)

lemma printOrderReceipt_try_unfold:
  "printOrderReceipt_try ns cfg dev d =
     (if \<not> port_ready cfg dev
        then (Inr \<lparr>success = False, message = msg_cannot_open\<rparr>, [], ready_device cfg dev)
      else (case status_check_before cfg (ready_device cfg dev) of
              Some r \<Rightarrow> (Inr r, [], ready_device cfg dev)
            | None \<Rightarrow>
                (case dispatch (call_throws dev) 0 (receipt_calls ns (text_encoding_of cfg) d) of
                   (Some msg, made) \<Rightarrow> (Inl msg, made, ready_device cfg dev)
                 | (None, made) \<Rightarrow> (Inr (result_after cfg (ready_device cfg dev)), made, ready_device cfg dev))))"
proof (cases "handle_open dev")
  case True
  have rd: "ready_device cfg dev = dev" using True by (simp add: ready_device_def)
  have pr: "port_ready cfg dev" using True by (simp add: port_ready_def)
  show ?thesis
    unfolding printOrderReceipt_try_def rd text_encoding_of_def Let_def
    using True pr by simp
next
  case False
  obtain ok b where o: "openPort cfg dev = (ok, b)" by (cases "openPort cfg dev")
  have cb: "call_throws b = call_throws dev" using openPort_fields(2) [of cfg dev] o by simp
  have rd: "ready_device cfg dev = b" using False o by (simp add: ready_device_def)
  have pr: "port_ready cfg dev = ok" using False o by (simp add: port_ready_def)
  show ?thesis
    unfolding printOrderReceipt_try_def rd pr text_encoding_of_def Let_def o
    using False by (simp add: cb split: option.splits)
qed

lemma status_check_before_success: "status_check_before cfg dev = Some r \<Longrightarrow> \<not> success r"
  by (auto simp: status_check_before_def Let_def split: if_splits)

lemma status_check_before_None:
  "dll_loaded dev \<Longrightarrow> handle_open dev \<Longrightarrow> status_check_before cfg dev = None \<Longrightarrow> checkStatus cfg \<Longrightarrow>
     status_before dev \<noteq> Some (- 3) \<and> status_before dev \<noteq> Some (- 1) \<and> status_before dev \<noteq> Some (- 2)"
  by (auto simp: status_check_before_def queryPrinterStatus_def Let_def split: if_splits)

lemma result_after_success:
  "dll_loaded dev \<Longrightarrow> handle_open dev \<Longrightarrow> success (result_after cfg dev) \<Longrightarrow> checkStatus cfg \<Longrightarrow>
     status_after dev \<noteq> Some (- 3)"
  by (auto simp: result_after_def queryPrinterStatus_def split: if_splits)


lemma printOrderReceipt_success:
  assumes dll: "dll_loaded dev"
    and r: "fst (printOrderReceipt ns cfg dev d) = Inr r"
    and s: "success r"
  shows "port_ready cfg dev
       \<and> (checkStatus cfg \<longrightarrow> status_before dev \<noteq> Some (- 3) \<and> status_before dev \<noteq> Some (- 1)
                              \<and> status_before dev \<noteq> Some (- 2))
       \<and> dispatch (call_throws dev) 0 (receipt_calls ns (text_encoding_of cfg) d)
           = (None, receipt_calls ns (text_encoding_of cfg) d)
       \<and> (checkStatus cfg \<longrightarrow> status_after dev \<noteq> Some (- 3))
       \<and> calls_made (printOrderReceipt ns cfg dev d) = receipt_calls ns (text_encoding_of cfg) d"
proof -
  let ?dev1 = "ready_device cfg dev"
  let ?L = "receipt_calls ns (text_encoding_of cfg) d"
  have pr: "port_ready cfg dev"
  proof (rule ccontr)
    assume "\<not> port_ready cfg dev"
    with dll r s show False
      by (auto simp: printOrderReceipt_def printOrderReceipt_try_unfold)
  qed
  have h1: "handle_open ?dev1" using pr by (rule ready_handle)
  have d1: "dll_loaded ?dev1" using dll by (simp add: ready_fields)
  have pre: "status_check_before cfg ?dev1 = None"
  proof (cases "status_check_before cfg ?dev1")
    case None then show ?thesis .
  next
    case (Some r')
    with dll r pr have "r = r'" by (simp add: printOrderReceipt_def printOrderReceipt_try_unfold)
    with s status_check_before_success [OF Some] show ?thesis by simp
  qed
  obtain x made where dp: "dispatch (call_throws dev) 0 ?L = (x, made)"
    by (cases "dispatch (call_throws dev) 0 ?L")
  have xn: "x = None"
  proof (cases x)
    case None then show ?thesis .
  next
    case (Some msg)
    with dll r pr pre dp have "r = \<lparr>success = False, message = msg_failed @ msg\<rparr>"
      by (simp add: printOrderReceipt_def printOrderReceipt_try_unfold)
    with s show ?thesis by simp
  qed
  from dp xn dispatch_complete [of "call_throws dev" 0 ?L] have mk: "made = ?L" by simp
  from dll r pr pre dp xn have rr: "r = result_after cfg ?dev1"
    by (simp add: printOrderReceipt_def printOrderReceipt_try_unfold)
  from dll pr pre dp xn mk have cm: "calls_made (printOrderReceipt ns cfg dev d) = ?L"
    by (simp add: printOrderReceipt_def printOrderReceipt_try_unfold calls_made_def)
  have a: "checkStatus cfg \<longrightarrow> status_before dev \<noteq> Some (- 3) \<and> status_before dev \<noteq> Some (- 1)
                              \<and> status_before dev \<noteq> Some (- 2)"
    using status_check_before_None [OF d1 h1 pre] by (simp add: ready_fields)
  have b: "checkStatus cfg \<longrightarrow> status_after dev \<noteq> Some (- 3)"
    using result_after_success [OF d1 h1] s rr by (simp add: ready_fields)
  from pr a dp xn mk b cm show ?thesis by simp
qed

lemma calls_made_prefix:
  "prefix (calls_made (printOrderReceipt ns cfg dev d)) (receipt_calls ns (text_encoding_of cfg) d)"
proof -
  let ?L = "receipt_calls ns (text_encoding_of cfg) d"
  obtain x made where dp: "dispatch (call_throws dev) 0 ?L = (x, made)"
    by (cases "dispatch (call_throws dev) 0 ?L")
  with dispatch_prefix [of "call_throws dev" 0 ?L] have "prefix made ?L" by simp
  with dp show ?thesis
    by (auto simp: printOrderReceipt_def printOrderReceipt_try_unfold calls_made_def
        split: option.splits)
qed

lemma prefix_nth: "prefix xs zs \<Longrightarrow> i < length xs \<Longrightarrow> xs ! i = zs ! i"
  by (auto simp: prefix_def nth_append)


lemma printOrderReceipt_completes:
  assumes "dll_loaded dev" and "port_ready cfg dev"
    and "status_check_before cfg (ready_device cfg dev) = None"
    and "dispatch (call_throws dev) 0 (receipt_calls ns (text_encoding_of cfg) d)
           = (None, receipt_calls ns (text_encoding_of cfg) d)"
  shows "fst (printOrderReceipt ns cfg dev d) = Inr (result_after cfg (ready_device cfg dev))"
  using assms by (simp add: printOrderReceipt_def printOrderReceipt_try_unfold)


section \<open>The result of printOrderReceipt\<close>




section \<open>The calls of a receipt depend on the order data and the configuration only\<close>

text \<open>
  Claim C9.  For the same order data, number conversion and printer configuration, the
  calls made by a run are a prefix of \<open>receipt_calls\<close>, which reads neither the
  device nor the clock: two runs agree on every call both of them made, whatever the
  state of the device and of the port handle, and two runs that succeed on the loaded
  library made exactly the same calls, text, encoding, position, scale and style
  included.
\<close>

theorem receipt_calls_deterministic:
  "(\<forall>i. i < length (calls_made (printOrderReceipt ns cfg dev1 d))
        \<and> i < length (calls_made (printOrderReceipt ns cfg dev2 d))
      \<longrightarrow> calls_made (printOrderReceipt ns cfg dev1 d) ! i
            = calls_made (printOrderReceipt ns cfg dev2 d) ! i)
   \<and> (dll_loaded dev1 \<and> dll_loaded dev2
        \<and> fst (printOrderReceipt ns cfg dev1 d) = Inr r1 \<and> success r1
        \<and> fst (printOrderReceipt ns cfg dev2 d) = Inr r2 \<and> success r2
      \<longrightarrow> calls_made (printOrderReceipt ns cfg dev1 d) = calls_made (printOrderReceipt ns cfg dev2 d)
        \<and> calls_made (printOrderReceipt ns cfg dev1 d) = receipt_calls ns (text_encoding_of cfg) d)"
proof (intro conjI impI allI)
  fix i
  assume a: "i < length (calls_made (printOrderReceipt ns cfg dev1 d))
        \<and> i < length (calls_made (printOrderReceipt ns cfg dev2 d))"
  have "calls_made (printOrderReceipt ns cfg dev1 d) ! i = receipt_calls ns (text_encoding_of cfg) d ! i"
    using a by (intro prefix_nth calls_made_prefix) simp
  moreover
  have "calls_made (printOrderReceipt ns cfg dev2 d) ! i = receipt_calls ns (text_encoding_of cfg) d ! i"
    using a by (intro prefix_nth calls_made_prefix) simp
  ultimately show "calls_made (printOrderReceipt ns cfg dev1 d) ! i
            = calls_made (printOrderReceipt ns cfg dev2 d) ! i" by simp
next
  assume a: "dll_loaded dev1 \<and> dll_loaded dev2
        \<and> fst (printOrderReceipt ns cfg dev1 d) = Inr r1 \<and> success r1
        \<and> fst (printOrderReceipt ns cfg dev2 d) = Inr r2 \<and> success r2"
  from a have c1: "calls_made (printOrderReceipt ns cfg dev1 d) = receipt_calls ns (text_encoding_of cfg) d"
    using printOrderReceipt_success [of dev1 ns cfg d r1] by simp
  from a have c2: "calls_made (printOrderReceipt ns cfg dev2 d) = receipt_calls ns (text_encoding_of cfg) d"
    using printOrderReceipt_success [of dev2 ns cfg d r2] by simp
  from c1 c2 show "calls_made (printOrderReceipt ns cfg dev1 d) = calls_made (printOrderReceipt ns cfg dev2 d)"
    by simp
  from c1 show "calls_made (printOrderReceipt ns cfg dev1 d) = receipt_calls ns (text_encoding_of cfg) d" .
qed

theorem receipt_calls_deterministic_witness:
  "calls_made (printOrderReceipt cents_str sample_config sample_device sample_print_data)
     = calls_made (printOrderReceipt cents_str sample_config
         (sample_device\<lparr>handle_open := False, status_after := None\<rparr>) sample_print_data)
   \<and> calls_made (printOrderReceipt cents_str sample_config sample_device sample_print_data)
     = receipt_calls cents_str 1 sample_print_data"
proof -
  let ?dev2 = "sample_device\<lparr>handle_open := False, status_after := None\<rparr>"
  let ?L = "receipt_calls cents_str 1 sample_print_data"
  have dp: "dispatch (\<lambda>k. None) 0 ?L = (None, ?L)"
    by (rule dispatch_guarded) simp
  have te: "text_encoding_of sample_config = 1" by (simp add: text_encoding_of_def sample_config_def)
  have ra: "result_after sample_config dev = \<lparr>success = True, message = msg_ok\<rparr>" for dev
    by (simp add: result_after_def sample_config_def)
  have sc: "status_check_before sample_config dev = None" for dev
    by (simp add: status_check_before_def sample_config_def)
  have dl1: "dll_loaded sample_device" by (simp add: sample_device_def)
  have dl2: "dll_loaded ?dev2" by (simp add: sample_device_def)
  have ct1: "call_throws sample_device = (\<lambda>k. None)" by (simp add: sample_device_def)
  have ct2: "call_throws ?dev2 = (\<lambda>k. None)" by (simp add: sample_device_def)
  have pr1: "port_ready sample_config sample_device" by (simp add: port_ready_def sample_device_def)
  have pr2: "port_ready sample_config ?dev2"
    by (simp add: port_ready_def openPort_def sample_device_def sample_config_def)
  have "fst (printOrderReceipt cents_str sample_config sample_device sample_print_data)
          = Inr (result_after sample_config (ready_device sample_config sample_device))"
    by (rule printOrderReceipt_completes [OF dl1 pr1]) (simp_all only: sc te ct1 dp)
  then have h1: "fst (printOrderReceipt cents_str sample_config sample_device sample_print_data)
          = Inr \<lparr>success = True, message = msg_ok\<rparr>"
    by (simp only: ra)
  have "fst (printOrderReceipt cents_str sample_config ?dev2 sample_print_data)
          = Inr (result_after sample_config (ready_device sample_config ?dev2))"
    by (rule printOrderReceipt_completes [OF dl2 pr2]) (simp_all only: sc te ct2 dp)
  then have h2: "fst (printOrderReceipt cents_str sample_config ?dev2 sample_print_data)
          = Inr \<lparr>success = True, message = msg_ok\<rparr>"
    by (simp only: ra)
  note t = receipt_calls_deterministic [of cents_str sample_config sample_device sample_print_data
      ?dev2 "\<lparr>success = True, message = msg_ok\<rparr>" "\<lparr>success = True, message = msg_ok\<rparr>"]
  have sx: "success \<lparr>success = True, message = msg_ok\<rparr>" by simp
  from t dl1 dl2 h1 h2 sx
  have "calls_made (printOrderReceipt cents_str sample_config sample_device sample_print_data)
     = calls_made (printOrderReceipt cents_str sample_config ?dev2 sample_print_data)
   \<and> calls_made (printOrderReceipt cents_str sample_config sample_device sample_print_data)
     = receipt_calls cents_str (text_encoding_of sample_config) sample_print_data"
    by blast
  then show ?thesis unfolding te .
qed

end
